theory Spec2Isabelle
  imports Complex_Main "HOL-Library.Word" "HOL-Library.Multiset"
begin

section \<open>JavaScript strings\<close>

text \<open>
  A JavaScript string is a sequence of UTF-16 code units. File names, document texts and
  manifest texts of \<^verbatim>\<open>src/commands/playground.ts\<close> are all such strings.
  \<open>js\<close> writes an ASCII literal.
\<close>

type_synonym jschar = "16 word"
type_synonym jsstring = "jschar list"

definition js :: "string \<Rightarrow> jsstring" where
  "js s = map of_char s"

text \<open>
  \<^verbatim>\<open>String.prototype.trim\<close> removes the code units of the ECMAScript productions
  WhiteSpace and LineTerminator from both ends.
\<close>

definition isWhiteSpaceOrLineTerminator :: "jschar \<Rightarrow> bool" where
  "isWhiteSpaceOrLineTerminator c \<longleftrightarrow>
     c \<in> {0x0009, 0x000A, 0x000B, 0x000C, 0x000D, 0x0020, 0x00A0, 0x1680,
          0x2000, 0x2001, 0x2002, 0x2003, 0x2004, 0x2005, 0x2006, 0x2007,
          0x2008, 0x2009, 0x200A, 0x2028, 0x2029, 0x202F, 0x205F, 0x3000, 0xFEFF}"

definition trim :: "jsstring \<Rightarrow> jsstring" where
  "trim s = rev (dropWhile isWhiteSpaceOrLineTerminator
                  (rev (dropWhile isWhiteSpaceOrLineTerminator s)))"

text \<open>\<^verbatim>\<open>String.prototype.includes\<close>: the argument occurs as a contiguous run.\<close>

fun string_includes :: "jsstring \<Rightarrow> jsstring \<Rightarrow> bool" where
  "string_includes [] sub = (sub = [])"
| "string_includes (c # cs) sub =
     (take (length sub) (c # cs) = sub \<or> string_includes cs sub)"

section \<open>The Node path module\<close>

text \<open>
  \<^verbatim>\<open>path.basename\<close> and \<^verbatim>\<open>path.extname\<close> in their POSIX flavour. Both look at the
  last component of the path, trailing slashes ignored. The extension starts at the
  last dot of that component; there is none when the component has no dot, when its only
  dot is its first character, or when the component is \<^verbatim>\<open>..\<close>.
\<close>

definition CHAR_FORWARD_SLASH :: jschar where
  "CHAR_FORWARD_SLASH = 0x2F"

definition CHAR_DOT :: jschar where
  "CHAR_DOT = 0x2E"

definition basename :: "jsstring \<Rightarrow> jsstring" where
  "basename p =
     rev (takeWhile (\<lambda>c. c \<noteq> CHAR_FORWARD_SLASH)
           (dropWhile (\<lambda>c. c = CHAR_FORWARD_SLASH) (rev p)))"

definition extname :: "jsstring \<Rightarrow> jsstring" where
  "extname p =
     (let part = basename p;
          afterDot = rev (takeWhile (\<lambda>c. c \<noteq> CHAR_DOT) (rev part));
          startDot = length part - Suc (length afterDot)
      in if CHAR_DOT \<notin> set part then []
         else if startDot = 0 then []
         else if part = [CHAR_DOT, CHAR_DOT] then []
         else drop startDot part)"

section \<open>JSON values\<close>

text \<open>
  The values \<^verbatim>\<open>JSON.parse\<close> produces. An object is the list of its own properties in
  enumeration order. Numbers are kept opaque in the type \<open>'n\<close>.
\<close>

datatype 'n json =
    JNull
  | JBool bool
  | JNum 'n
  | JStr jsstring
  | JArr "'n json list"
  | JObj "(jsstring \<times> 'n json) list"

datatype error = SyntaxError | TypeError

text \<open>
  Reading a property that no prototype defines (\<^verbatim>\<open>scripts\<close>, \<^verbatim>\<open>template\<close>): \<open>None\<close> is
  \<^verbatim>\<open>undefined\<close>; reading from \<^verbatim>\<open>null\<close> throws.
\<close>

fun getProp :: "'n json \<Rightarrow> jsstring \<Rightarrow> error + 'n json option" where
  "getProp JNull k = Inl TypeError"
| "getProp (JObj kvs) k = Inr (map_of kvs k)"
| "getProp v k = Inr None"

fun assign :: "(jsstring \<times> 'v) list \<Rightarrow> jsstring \<Rightarrow> 'v \<Rightarrow> (jsstring \<times> 'v) list" where
  "assign [] k v = [(k, v)]"
| "assign ((k', v') # kvs) k v =
     (if k' = k then (k, v) # kvs else (k', v') # assign kvs k v)"

fun setProp :: "'n json \<Rightarrow> jsstring \<Rightarrow> 'n json \<Rightarrow> 'n json" where
  "setProp (JObj kvs) k v = JObj (assign kvs k v)"
| "setProp obj k v = obj"

text \<open>
  SameValueZero, the equality of \<^verbatim>\<open>Array.prototype.includes\<close> and of \<^verbatim>\<open>Set\<close>: primitives
  by value; two distinct parsed arrays or objects are never the same value.
\<close>

fun sameValueZero :: "'n json \<Rightarrow> 'n json \<Rightarrow> bool" where
  "sameValueZero JNull JNull = True"
| "sameValueZero (JBool a) (JBool b) = (a = b)"
| "sameValueZero (JNum a) (JNum b) = (a = b)"
| "sameValueZero (JStr a) (JStr b) = (a = b)"
| "sameValueZero x y = False"

text \<open>\<^verbatim>\<open>[...new Set(xs)]\<close>: the first occurrence of every value, in order.\<close>

definition setAdd :: "'n json list \<Rightarrow> 'n json \<Rightarrow> 'n json list" where
  "setAdd seen x = (if \<exists>y \<in> set seen. sameValueZero y x then seen else seen @ [x])"

definition newSet :: "'n json list \<Rightarrow> 'n json list" where
  "newSet xs = foldl setAdd [] xs"

text \<open>
  \<^verbatim>\<open>scripts.includes(script)\<close> on whatever the manifest holds under \<^verbatim>\<open>scripts\<close>: an array
  searches its elements, a string searches its text, anything else has no callable
  \<^verbatim>\<open>includes\<close>.
\<close>

fun includes_json :: "'n json option \<Rightarrow> jsstring \<Rightarrow> error + bool" where
  "includes_json (Some (JArr xs)) s = Inr (\<exists>y \<in> set xs. sameValueZero y (JStr s))"
| "includes_json (Some (JStr t)) s = Inr (string_includes t s)"
| "includes_json v s = Inl TypeError"

text \<open>\<^verbatim>\<open>xs.every(f)\<close> where \<open>f\<close> may throw: stops at the first false or the first throw.\<close>

fun every :: "('a \<Rightarrow> error + bool) \<Rightarrow> 'a list \<Rightarrow> error + bool" where
  "every f [] = Inr True"
| "every f (x # xs) =
     (case f x of Inl e \<Rightarrow> Inl e | Inr b \<Rightarrow> if b then every f xs else Inr False)"

text \<open>\<^verbatim>\<open>scripts.push(...items)\<close>: only an array has \<^verbatim>\<open>push\<close>.\<close>

fun push_json :: "'n json option \<Rightarrow> 'n json list \<Rightarrow> error + 'n json list" where
  "push_json (Some (JArr xs)) items = Inr (xs @ items)"
| "push_json v items = Inl TypeError"

section \<open>Gists, documents, the host and its effects\<close>

record gistFile =
  content :: "jsstring option"

record gist =
  gist_id :: jsstring
  files :: "(jsstring \<times> gistFile) list"

record document =
  uri_authority :: jsstring
  uri_toString :: jsstring
  getText :: jsstring

datatype JsxEmit = React

record compilerOptions =
  experimentalDecorators :: bool
  target :: jsstring
  jsx :: "JsxEmit option"

record GalleryTemplate =
  label :: jsstring
  description :: jsstring
  gist :: jsstring

text \<open>
  What the module calls but does not define: the JSON built-ins, the four transpiler
  packages (\<open>None\<close> when the call throws), the locale-dependent string methods, the
  download of a gallery (\<open>None\<close> when the request or the reading of its templates
  throws) and the two labelling helpers of \<^verbatim>\<open>../utils\<close>.
\<close>

record 'n host =
  JSON_parse :: "jsstring \<Rightarrow> 'n json option"
  JSON_stringify :: "'n json \<Rightarrow> nat \<Rightarrow> jsstring"
  typescript_transpile :: "jsstring \<Rightarrow> compilerOptions \<Rightarrow> jsstring option"
  pug_render :: "jsstring \<Rightarrow> jsstring option"
  sass_renderSync :: "jsstring \<Rightarrow> bool \<Rightarrow> jsstring option"
  less_render :: "jsstring \<Rightarrow> jsstring option"
  toLowerCase :: "jsstring \<Rightarrow> jsstring"
  toLocaleLowerCase :: "jsstring \<Rightarrow> jsstring"
  localeCompare :: "jsstring \<Rightarrow> jsstring \<Rightarrow> int"
  axios_get :: "jsstring \<Rightarrow> GalleryTemplate list option"
  getGistLabel :: "gist \<Rightarrow> jsstring"
  getGistDescription :: "gist \<Rightarrow> jsstring"

text \<open>
  Every call that leaves the module is logged, in order: writes to the bundle store,
  transpiler invocations, and updates of the preview surface.
\<close>

datatype effect =
    WriteFile jsstring jsstring jsstring
  | TypescriptTranspile jsstring compilerOptions
  | PugRender jsstring
  | SassRenderSync jsstring bool
  | LessRender jsstring
  | UpdateManifest "jsstring option" bool
  | UpdateHTML jsstring bool
  | UpdateCSS jsstring bool
  | UpdateJavaScript document bool

section \<open>Manifest resolution\<close>

text \<open>Modelled from the spec: the constant \<^verbatim>\<open>PLAYGROUND_FILE\<close> of \<^verbatim>\<open>../constants\<close>, the
  exact file name of the manifest, which the scenarios give as \<^verbatim>\<open>playground.json\<close>.\<close>

definition PLAYGROUND_FILE :: jsstring where
  "PLAYGROUND_FILE = js ''playground.json''"

definition REACT_EXTENSIONS :: "jsstring list" where
  "REACT_EXTENSIONS = [js ''.babel'', js ''.jsx'', js ''.tsx'']"

definition isReactFile :: "jsstring \<Rightarrow> bool" where
  "isReactFile fileName \<longleftrightarrow> extname fileName \<in> set REACT_EXTENSIONS"

definition REACT_SCRIPTS :: "jsstring list" where
  "REACT_SCRIPTS = [js ''react'', js ''react-dom'']"

definition includesReactFiles :: "gist \<Rightarrow> bool" where
  "includesReactFiles g \<longleftrightarrow> (\<exists>fileName \<in> set (map fst (files g)). isReactFile fileName)"

definition includesReactScripts :: "'n json option \<Rightarrow> error + bool" where
  "includesReactScripts scripts = every (\<lambda>script. includes_json scripts script) REACT_SCRIPTS"

text \<open>
  \<^verbatim>\<open>JSON.parse\<close> of a file content; an absent content is \<^verbatim>\<open>undefined\<close>, which is not
  JSON text.
\<close>

definition parseContent :: "'n host \<Rightarrow> jsstring option \<Rightarrow> error + 'n json" where
  "parseContent h c =
     (case c of
        None \<Rightarrow> Inl SyntaxError
      | Some s \<Rightarrow> (case JSON_parse h s of None \<Rightarrow> Inl SyntaxError | Some v \<Rightarrow> Inr v))"

text \<open>
  \<^verbatim>\<open>getManifestContent\<close> returns the effects it issued and either the exception that
  escaped or the returned content (\<open>None\<close> is \<^verbatim>\<open>undefined\<close>).
\<close>

definition getManifestContent :: "'n host \<Rightarrow> gist \<Rightarrow> effect list \<times> (error + jsstring option)" where
  "getManifestContent h g =
     (case map_of (files g) PLAYGROUND_FILE of
        None \<Rightarrow> ([], Inr (Some []))
      | Some file \<Rightarrow>
          let manifest = content file in
          if includesReactFiles g then
            (case parseContent h manifest of
               Inl e \<Rightarrow> ([], Inl e)
             | Inr parsedManifest \<Rightarrow>
                 (case getProp parsedManifest (js ''scripts'') of
                    Inl e \<Rightarrow> ([], Inl e)
                  | Inr scripts \<Rightarrow>
                      (case includesReactScripts scripts of
                         Inl e \<Rightarrow> ([], Inl e)
                       | Inr True \<Rightarrow> ([], Inr manifest)
                       | Inr False \<Rightarrow>
                           (case push_json scripts (map JStr REACT_SCRIPTS) of
                              Inl e \<Rightarrow> ([], Inl e)
                            | Inr pushed \<Rightarrow>
                                let rewritten = setProp parsedManifest (js ''scripts'')
                                                  (JArr (newSet pushed));
                                    content = JSON_stringify h rewritten 2
                                in ([WriteFile (gist_id g) PLAYGROUND_FILE content],
                                    Inr (Some content))))))
          else ([], Inr manifest))"

text \<open>Modelled from the spec: the storage collaborator, which is not part of this module:
  a write of a named file replaces that file's content in the bundle it is addressed to.
  \<open>persist\<close> lets the logged writes land in a bundle.\<close>

fun persist :: "effect list \<Rightarrow> gist \<Rightarrow> gist" where
  "persist [] g = g"
| "persist (WriteFile gistId fileName text # effs) g =
     persist effs
       (if gistId = gist_id g
        then g\<lparr>files := assign (files g) fileName \<lparr>content = Some text\<rparr>\<rparr>
        else g)"
| "persist (e # effs) g = persist effs g"

section \<open>Role resolution\<close>

datatype PlaygroundFileType = markup | script | stylesheet | manifest

definition MARKUP_EXTENSIONS :: "jsstring list" where
  "MARKUP_EXTENSIONS = [js ''.html'', js ''.pug'']"

definition STYLESHEET_EXTENSIONS :: "jsstring list" where
  "STYLESHEET_EXTENSIONS = [js ''.css'', js ''.less'', js ''.sass'', js ''.scss'']"

definition MODULE_EXTENSIONS :: "jsstring list" where
  "MODULE_EXTENSIONS = [js ''.mjs'']"

definition TYPESCRIPT_EXTENSIONS :: "jsstring list" where
  "TYPESCRIPT_EXTENSIONS = js ''.ts'' # REACT_EXTENSIONS"

definition SCRIPT_EXTENSIONS :: "jsstring list" where
  "SCRIPT_EXTENSIONS = js ''.js'' # MODULE_EXTENSIONS @ TYPESCRIPT_EXTENSIONS"

definition MARKUP_BASE_NAME :: jsstring where
  "MARKUP_BASE_NAME = js ''index''"

definition SCRIPT_BASE_NAME :: jsstring where
  "SCRIPT_BASE_NAME = js ''script''"

definition STYLESHEET_BASE_NAME :: jsstring where
  "STYLESHEET_BASE_NAME = js ''style''"

text \<open>The \<^verbatim>\<open>switch\<close> shared by \<^verbatim>\<open>getGistFileOfType\<close> and \<^verbatim>\<open>isPlaygroundDocument\<close>; its
  \<^verbatim>\<open>default\<close> arm falls in with the stylesheet case.\<close>

fun extensions :: "PlaygroundFileType \<Rightarrow> jsstring list" where
  "extensions markup = MARKUP_EXTENSIONS"
| "extensions script = SCRIPT_EXTENSIONS"
| "extensions fileType = STYLESHEET_EXTENSIONS"

fun fileBaseName :: "PlaygroundFileType \<Rightarrow> jsstring" where
  "fileBaseName markup = MARKUP_BASE_NAME"
| "fileBaseName script = SCRIPT_BASE_NAME"
| "fileBaseName fileType = STYLESHEET_BASE_NAME"

definition fileCandidates :: "PlaygroundFileType \<Rightarrow> jsstring list" where
  "fileCandidates fileType = map (\<lambda>extension. fileBaseName fileType @ extension) (extensions fileType)"

text \<open>\<^verbatim>\<open>Object.keys(gist.files).find(...)\<close>: the first key, in the bundle's own order, that
  is a candidate name.\<close>

definition getGistFileOfType :: "gist \<Rightarrow> PlaygroundFileType \<Rightarrow> jsstring option" where
  "getGistFileOfType g fileType =
     List.find (\<lambda>file. file \<in> set (fileCandidates fileType)) (map fst (files g))"

definition isPlaygroundDocument :: "gist \<Rightarrow> document \<Rightarrow> PlaygroundFileType \<Rightarrow> bool" where
  "isPlaygroundDocument g d fileType =
     (if gist_id g \<noteq> uri_authority d then False
      else basename (uri_toString d) \<in> set (fileCandidates fileType))"

definition isPlaygroundManifestFile :: "'n host \<Rightarrow> gist \<Rightarrow> document \<Rightarrow> bool" where
  "isPlaygroundManifestFile h g d =
     (if gist_id g \<noteq> uri_authority d then False
      else basename (toLowerCase h (uri_toString d)) = PLAYGROUND_FILE)"

section \<open>Transpiler adapters\<close>

text \<open>JavaScript truthiness of a JSON value.\<close>

fun truthy :: "('n::zero) json \<Rightarrow> bool" where
  "truthy JNull = False"
| "truthy (JBool b) = b"
| "truthy (JNum n) = (n \<noteq> 0)"
| "truthy (JStr s) = (s \<noteq> [])"
| "truthy v = True"

text \<open>\<^verbatim>\<open>manifest && manifest.scripts && manifest.scripts.includes("react")\<close>, as the
  truth value the later tests take from it; the last conjunct may throw.\<close>

definition includesJsx :: "('n::zero) json option \<Rightarrow> error + bool" where
  "includesJsx m =
     (case m of
        None \<Rightarrow> Inr False
      | Some v \<Rightarrow>
          if \<not> truthy v then Inr False
          else (case getProp v (js ''scripts'') of
                  Inl e \<Rightarrow> Inl e
                | Inr None \<Rightarrow> Inr False
                | Inr (Some scripts) \<Rightarrow>
                    if \<not> truthy scripts then Inr False
                    else includes_json (Some scripts) (js ''react'')))"

text \<open>Each adapter returns the transpiler calls it made and its result: \<open>None\<close> is
  \<^verbatim>\<open>null\<close>, the failed transpile.\<close>

definition getScriptContent ::
  "('n::zero) host \<Rightarrow> document \<Rightarrow> 'n json option \<Rightarrow> effect list \<times> (error + jsstring option)" where
  "getScriptContent h d m =
     (let content = getText d in
      if trim content = [] then ([], Inr (Some content))
      else
        let extension = toLocaleLowerCase h (extname (uri_toString d)) in
        case includesJsx m of
          Inl e \<Rightarrow> ([], Inl e)
        | Inr withJsx \<Rightarrow>
            if extension \<in> set TYPESCRIPT_EXTENSIONS \<or> withJsx then
              let compilerOptions =
                    \<lparr>experimentalDecorators = True, target = js ''ES2018'',
                     jsx = (if withJsx \<or> extension \<in> set REACT_EXTENSIONS
                            then Some React else None)\<rparr>
              in ([TypescriptTranspile content compilerOptions],
                  Inr (typescript_transpile h content compilerOptions))
            else ([], Inr (Some content)))"

definition getMarkupContent :: "'n host \<Rightarrow> document \<Rightarrow> effect list \<times> jsstring option" where
  "getMarkupContent h d =
     (let content = getText d in
      if trim content = [] then ([], Some content)
      else
        let extension = toLocaleLowerCase h (extname (uri_toString d)) in
        if extension = js ''.pug'' then ([PugRender content], pug_render h content)
        else ([], Some content))"

definition getStylesheetContent :: "'n host \<Rightarrow> document \<Rightarrow> effect list \<times> jsstring option" where
  "getStylesheetContent h d =
     (let content = getText d in
      if trim content = [] then ([], Some content)
      else
        let extension = toLocaleLowerCase h (extname (uri_toString d)) in
        if extension = js ''.scss'' \<or> extension = js ''.sass'' then
          ([SassRenderSync content (extension = js ''.sass'')],
           sass_renderSync h content (extension = js ''.sass''))
        else if extension = js ''.less'' then ([LessRender content], less_render h content)
        else ([], Some content))"

section \<open>The change handler of an open playground\<close>

text \<open>The variables of \<^verbatim>\<open>openPlayground\<close> that its change handler closes over.\<close>

record 'n playground =
  pg_gist :: gist
  jsDocument :: "document option"
  pg_manifest :: "'n json"
  runOnEdit :: bool

fun remove :: "(jsstring \<times> 'v) list \<Rightarrow> jsstring \<Rightarrow> (jsstring \<times> 'v) list" where
  "remove [] k = []"
| "remove ((k', v') # kvs) k = (if k' = k then kvs else (k', v') # remove kvs k)"

text \<open>
  The body of the handler registered with \<^verbatim>\<open>onDidChangeTextDocument\<close>, run on one
  document. It returns the effects issued, the exception that ended it (if any) and the
  variables as it left them.
\<close>

definition changeHandler ::
  "'n host \<Rightarrow> 'n playground \<Rightarrow> document \<Rightarrow> effect list \<times> error option \<times> 'n playground" where
  "changeHandler h pg d =
     (let g = pg_gist pg in
      if isPlaygroundDocument g d markup then
        (case getMarkupContent h d of
           (effs, None) \<Rightarrow> (effs, None, pg)
         | (effs, Some html) \<Rightarrow> (effs @ [UpdateHTML html (runOnEdit pg)], None, pg))
      else if isPlaygroundDocument g d script then
        (case jsDocument pg of
           None \<Rightarrow> ([UpdateJavaScript d (runOnEdit pg)], None, pg)
         | Some jsDoc \<Rightarrow>
             if uri_toString jsDoc \<noteq> uri_toString d then
               (case map_of (files g) (basename (uri_toString jsDoc)) of
                  None \<Rightarrow> ([UpdateJavaScript d (runOnEdit pg)], None, pg)
                | Some oldFile \<Rightarrow>
                    let g' = g\<lparr>files := remove (assign (files g) (basename (uri_toString d)) oldFile)
                                            (basename (uri_toString jsDoc))\<rparr>;
                        pg' = pg\<lparr>pg_gist := g'\<rparr>
                    in (case getManifestContent h g' of
                          (effs, Inl e) \<Rightarrow> (effs, Some e, pg')
                        | (effs, Inr manifestContent) \<Rightarrow>
                            (effs @ [UpdateManifest manifestContent (runOnEdit pg),
                                     UpdateJavaScript d (runOnEdit pg)], None, pg')))
             else ([UpdateJavaScript d (runOnEdit pg)], None, pg))
      else if isPlaygroundManifestFile h g d then
        (case jsDocument pg of
           None \<Rightarrow> ([UpdateManifest (Some (getText d)) (runOnEdit pg)], None, pg)
         | Some jsDoc \<Rightarrow>
             (case JSON_parse h (getText d) of
                None \<Rightarrow> ([UpdateManifest (Some (getText d)) (runOnEdit pg)], Some SyntaxError, pg)
              | Some parsed \<Rightarrow>
                  ([UpdateManifest (Some (getText d)) (runOnEdit pg),
                    UpdateJavaScript jsDoc (runOnEdit pg)], None, pg\<lparr>pg_manifest := parsed\<rparr>)))
      else if isPlaygroundDocument g d stylesheet then
        (case getStylesheetContent h d of
           (effs, None) \<Rightarrow> (effs, None, pg)
         | (effs, Some css) \<Rightarrow> (effs @ [UpdateCSS css (runOnEdit pg)], None, pg))
      else ([], None, pg))"

section \<open>The debounced dispatcher\<close>

text \<open>
  The handler is registered as \<^verbatim>\<open>debounce(handler, 100)\<close> of the package \<^verbatim>\<open>debounce\<close>:
  one wrapper for the change events of all documents, with one timer and one slot for the
  arguments of the latest call. A call stores its arguments and restarts the wait; once
  \<open>wait\<close> milliseconds have passed since the latest call, the handler runs on the stored
  arguments. Calls are given with their times, in the order they happen; the result lists
  the runs of the handler with theirs.
\<close>

fun debounce :: "nat \<Rightarrow> (nat \<times> 'a) list \<Rightarrow> (nat \<times> 'a) list" where
  "debounce wait [] = []"
| "debounce wait [(t, a)] = [(t + wait, a)]"
| "debounce wait ((t, a) # (t', b) # calls) =
     (if t + wait \<le> t' then (t + wait, a) # debounce wait ((t', b) # calls)
      else debounce wait ((t', b) # calls))"

text \<open>The handler is asynchronous: an exception ends that run only, later runs still happen.\<close>

fun runHandlers ::
  "'n host \<Rightarrow> 'n playground \<Rightarrow> document list \<Rightarrow> effect list \<times> 'n playground" where
  "runHandlers h pg [] = ([], pg)"
| "runHandlers h pg (d # ds) =
     (case changeHandler h pg d of
        (effs, err, pg') \<Rightarrow>
          (case runHandlers h pg' ds of (effs', pg'') \<Rightarrow> (effs @ effs', pg'')))"

text \<open>A change event carries the document, whose text is read when the handler runs; no
  change can lie between the latest event and that run, so the text is the one the latest
  event left.\<close>

definition onDidChangeTextDocument ::
  "'n host \<Rightarrow> 'n playground \<Rightarrow> (nat \<times> document) list \<Rightarrow> effect list \<times> 'n playground" where
  "onDidChangeTextDocument h pg events = runHandlers h pg (map snd (debounce 100 events))"

section \<open>Editor layout\<close>

datatype EditorLayoutOrientation = horizontal | vertical

datatype layoutGroup =
  Group (orientation: "EditorLayoutOrientation option")
        (groups: "layoutGroup list option")
        (group_size: "real option")

definition EditorLayouts_splitOne :: layoutGroup where
  "EditorLayouts_splitOne =
     Group (Some horizontal) (Some [Group None None None, Group None None None]) None"

definition EditorLayouts_splitTwo :: layoutGroup where
  "EditorLayouts_splitTwo =
     Group (Some horizontal)
       (Some [Group (Some vertical) (Some [Group None None None, Group None None None])
                (Some 0.5),
              Group None (Some [Group None None None]) (Some 0.5)])
       None"

definition EditorLayouts_splitThree :: layoutGroup where
  "EditorLayouts_splitThree =
     Group (Some horizontal)
       (Some [Group (Some vertical)
                (Some [Group None None None, Group None None None, Group None None None])
                (Some 0.5),
              Group None (Some [Group None None None]) (Some 0.5)])
       None"

definition EditorLayouts_grid :: layoutGroup where
  "EditorLayouts_grid =
     Group (Some horizontal)
       (Some [Group (Some vertical) (Some [Group None None None, Group None None None])
                (Some 0.5),
              Group (Some vertical) (Some [Group None None None, Group None None None])
                (Some 0.5)])
       None"

definition PlaygroundLayout_grid :: jsstring where
  "PlaygroundLayout_grid = js ''grid''"

definition PlaygroundLayout_preview :: jsstring where
  "PlaygroundLayout_preview = js ''preview''"

definition PlaygroundLayout_splitLeft :: jsstring where
  "PlaygroundLayout_splitLeft = js ''splitLeft''"

definition PlaygroundLayout_splitRight :: jsstring where
  "PlaygroundLayout_splitRight = js ''splitRight''"

definition PlaygroundLayout_splitTop :: jsstring where
  "PlaygroundLayout_splitTop = js ''splitTop''"

definition includedFiles :: "gist \<Rightarrow> nat" where
  "includedFiles g =
     length (filter (\<lambda>file. file)
       [getGistFileOfType g markup \<noteq> None,
        getGistFileOfType g stylesheet \<noteq> None,
        getGistFileOfType g script \<noteq> None])"

record layoutPlan =
  editorLayout :: layoutGroup
  currentViewColumn :: nat
  previewViewColumn :: nat

text \<open>The layout selection of \<^verbatim>\<open>openPlayground\<close>, from the bundle and the layout
  preference in force (\<^verbatim>\<open>playgroundLayout\<close>).\<close>

definition selectLayout :: "gist \<Rightarrow> jsstring \<Rightarrow> layoutPlan" where
  "selectLayout g playgroundLayout =
     (let chosen =
            (if includedFiles g = 3 then
               (if playgroundLayout = PlaygroundLayout_grid then EditorLayouts_grid
                else EditorLayouts_splitThree)
             else if includedFiles g = 2 then EditorLayouts_splitTwo
             else EditorLayouts_splitOne)
      in if playgroundLayout = PlaygroundLayout_splitRight then
           \<lparr>editorLayout = Group (orientation chosen) (map_option rev (groups chosen))
                              (group_size chosen),
            currentViewColumn = 2,
            previewViewColumn = 1\<rparr>
         else if playgroundLayout = PlaygroundLayout_splitTop then
           \<lparr>editorLayout = Group (Some vertical) (groups chosen) (group_size chosen),
            currentViewColumn = 1,
            previewViewColumn = includedFiles g + 1\<rparr>
         else
           \<lparr>editorLayout = chosen,
            currentViewColumn = 1,
            previewViewColumn = includedFiles g + 1\<rparr>)"

text \<open>The editors are shown in the order markup, stylesheet, script, each taking the
  current column and advancing it; the preview layout shows none.\<close>

definition editorViewColumns :: "gist \<Rightarrow> jsstring \<Rightarrow> (jsstring \<times> nat) list" where
  "editorViewColumns g playgroundLayout =
     (if playgroundLayout = PlaygroundLayout_preview then []
      else
        let shown = List.map_filter (getGistFileOfType g) [markup, stylesheet, script];
            first = currentViewColumn (selectLayout g playgroundLayout)
        in zip shown [first ..< first + length shown])"

section \<open>Template choice\<close>

text \<open>\<^verbatim>\<open>Array.prototype.sort\<close> with a comparator: the sort is stable, and for a consistent
  comparator every stable sort returns the list computed here.\<close>

fun insort_by :: "('a \<Rightarrow> 'a \<Rightarrow> int) \<Rightarrow> 'a \<Rightarrow> 'a list \<Rightarrow> 'a list" where
  "insort_by cmp x [] = [x]"
| "insort_by cmp x (y # ys) =
     (if cmp x y \<le> 0 then x # y # ys else y # insort_by cmp x ys)"

definition sort_by :: "('a \<Rightarrow> 'a \<Rightarrow> int) \<Rightarrow> 'a list \<Rightarrow> 'a list" where
  "sort_by cmp xs = foldr (insort_by cmp) xs []"

definition byLabel :: "'n host \<Rightarrow> GalleryTemplate \<Rightarrow> GalleryTemplate \<Rightarrow> int" where
  "byLabel h a b = localeCompare h (label a) (label b)"

definition KnownGalleries :: "jsstring \<Rightarrow> jsstring option" where
  "KnownGalleries = [js ''web'' \<mapsto>
     js ''https://gist.githubusercontent.com/lostintangent/ce7e5c20f94a7f52a5cec1f22cebec18/raw/793777de81ea634ba5e84ecd5ded167b26baa45d/gallery.json'']"

definition loadGalleryTemplates :: "'n host \<Rightarrow> jsstring list \<Rightarrow> GalleryTemplate list" where
  "loadGalleryTemplates h galleries =
     sort_by (byLabel h)
       (concat (map (\<lambda>gallery.
          let url = (case KnownGalleries gallery of Some known \<Rightarrow> known | None \<Rightarrow> gallery)
          in case axios_get h url of None \<Rightarrow> [] | Some templates \<Rightarrow> templates) galleries))"

datatype quickPickItem = Template GalleryTemplate | NO_TEMPLATE_GIST_ITEM

text \<open>The template a gist of the store contributes: its manifest must have a non-empty
  content that parses to a value with a truthy \<^verbatim>\<open>template\<close>; whatever is thrown on the way
  is swallowed.\<close>

definition userTemplate :: "('n::zero) host \<Rightarrow> gist \<Rightarrow> GalleryTemplate list" where
  "userTemplate h g =
     (case map_of (files g) PLAYGROUND_FILE of
        None \<Rightarrow> []
      | Some file \<Rightarrow>
          (case content file of
             None \<Rightarrow> []
           | Some s \<Rightarrow>
               if s = [] then []
               else (case JSON_parse h s of
                       None \<Rightarrow> []
                     | Some manifestContent \<Rightarrow>
                         (case getProp manifestContent (js ''template'') of
                            Inl e \<Rightarrow> []
                          | Inr None \<Rightarrow> []
                          | Inr (Some flag) \<Rightarrow>
                              if truthy flag
                              then [\<lparr>label = getGistLabel h g,
                                     description = getGistDescription h g,
                                     gist = gist_id g\<rparr>]
                              else []))))"

text \<open>The items \<^verbatim>\<open>newPlaygroundInternal\<close> puts into its quick pick; \<open>None\<close> when it shows
  none and goes on to \<^verbatim>\<open>newPlaygroundWithoutTemplate\<close>.\<close>

definition newPlaygroundInternal ::
  "('n::zero) host \<Rightarrow> GalleryTemplate list \<Rightarrow> gist list \<Rightarrow> gist list \<Rightarrow> quickPickItem list option" where
  "newPlaygroundInternal h galleryTemplates gists starredGists =
     (let templates = galleryTemplates @ concat (map (userTemplate h) (gists @ starredGists))
      in if length templates = 0 then None
         else Some (map Template (sort_by (byLabel h) templates) @ [NO_TEMPLATE_GIST_ITEM]))"

section \<open>Notions used in the statements\<close>

definition isString :: "'n json \<Rightarrow> bool" where
  "isString v \<longleftrightarrow> (\<exists>s. v = JStr s)"

text \<open>No two entries of a list are the same value for \<^verbatim>\<open>Set\<close> and \<^verbatim>\<open>includes\<close>.\<close>

definition noDuplicates :: "'n json list \<Rightarrow> bool" where
  "noDuplicates xs \<longleftrightarrow> sorted_wrt (\<lambda>a b. \<not> sameValueZero a b) xs"

text \<open>The reading of role resolution by extension priority: the first extension of the
  role's list, in the list's order, whose file the bundle holds.\<close>

definition resolveByExtensionPriority :: "gist \<Rightarrow> PlaygroundFileType \<Rightarrow> jsstring option" where
  "resolveByExtensionPriority g fileType =
     List.find (\<lambda>candidate. candidate \<in> set (map fst (files g))) (fileCandidates fileType)"

text \<open>A burst: every call comes less than \<open>wait\<close> after the one before it.\<close>

fun burst :: "nat \<Rightarrow> (nat \<times> 'a) list \<Rightarrow> bool" where
  "burst wait ((t, a) # (t', b) # calls) \<longleftrightarrow> t \<le> t' \<and> t' < t + wait \<and> burst wait ((t', b) # calls)"
| "burst wait calls \<longleftrightarrow> True"

text \<open>What sorting needs of a comparator: any two values are comparable, transitively.\<close>

definition consistent :: "('a \<Rightarrow> 'a \<Rightarrow> int) \<Rightarrow> bool" where
  "consistent cmp \<longleftrightarrow>
     (\<forall>a b. cmp a b \<le> 0 \<or> cmp b a \<le> 0) \<and>
     (\<forall>a b c. cmp a b \<le> 0 \<longrightarrow> cmp b c \<le> 0 \<longrightarrow> cmp a c \<le> 0)"

text \<open>The effects that reach the preview surface.\<close>

definition isUpdate :: "effect \<Rightarrow> bool" where
  "isUpdate e =
     (case e of
        UpdateManifest c r \<Rightarrow> True
      | UpdateHTML c r \<Rightarrow> True
      | UpdateCSS c r \<Rightarrow> True
      | UpdateJavaScript d r \<Rightarrow> True
      | _ \<Rightarrow> False)"

section \<open>Sample bundles and a sample host\<close>

definition LF :: jsstring where
  "LF = [0x000A]"

definition lodash_manifest :: jsstring where
  \<open>lodash_manifest = js ''{"scripts":["lodash"]}''\<close>

definition lodash_react_manifest :: jsstring where
  \<open>lodash_react_manifest =
     js ''{'' @ LF @
     js ''  "scripts": ['' @ LF @
     js ''    "lodash",'' @ LF @
     js ''    "react",'' @ LF @
     js ''    "react-dom"'' @ LF @
     js ''  ]'' @ LF @
     js ''}''\<close>

definition repeated_manifest :: jsstring where
  \<open>repeated_manifest = js ''{"scripts":["react","react","react-dom"]}''\<close>

definition styles_only_manifest :: jsstring where
  \<open>styles_only_manifest = js ''{"styles":[]}''\<close>

definition truncated_manifest :: jsstring where
  \<open>truncated_manifest = js ''{"scripts":[''\<close>

text \<open>\<^verbatim>\<open>JSON.parse\<close> and \<^verbatim>\<open>JSON.stringify\<close> on the manifests above; \<open>sample_parse\<close> takes
  every other text for malformed.\<close>

definition sample_parse :: "jsstring \<Rightarrow> int json option" where
  "sample_parse s =
     (if s = lodash_manifest then
        Some (JObj [(js ''scripts'', JArr [JStr (js ''lodash'')])])
      else if s = lodash_react_manifest then
        Some (JObj [(js ''scripts'',
                     JArr [JStr (js ''lodash''), JStr (js ''react''), JStr (js ''react-dom'')])])
      else if s = repeated_manifest then
        Some (JObj [(js ''scripts'',
                     JArr [JStr (js ''react''), JStr (js ''react''), JStr (js ''react-dom'')])])
      else if s = styles_only_manifest then
        Some (JObj [(js ''styles'', JArr [])])
      else None)"

definition sample_stringify :: "int json \<Rightarrow> nat \<Rightarrow> jsstring" where
  "sample_stringify v indent =
     (if v = JObj [(js ''scripts'',
                    JArr [JStr (js ''lodash''), JStr (js ''react''), JStr (js ''react-dom'')])]
         \<and> indent = 2
      then lodash_react_manifest
      else js ''null'')"

definition sample_toLowerCase :: "jsstring \<Rightarrow> jsstring" where
  "sample_toLowerCase s = map (\<lambda>c. if 0x41 \<le> c \<and> c \<le> 0x5A then c + 0x20 else c) s"

text \<open>A comparator by length, the simplest consistent one.\<close>

definition sample_compare :: "jsstring \<Rightarrow> jsstring \<Rightarrow> int" where
  "sample_compare a b = int (length a) - int (length b)"

text \<open>Transpilers that know one source each and fail on every other.\<close>

definition sample_host :: "int host" where
  "sample_host =
     \<lparr>JSON_parse = sample_parse,
      JSON_stringify = sample_stringify,
      typescript_transpile = (\<lambda>source options. None),
      pug_render = (\<lambda>source. if source = js ''p hi'' then Some (js ''<p>hi</p>'') else None),
      sass_renderSync = (\<lambda>source indented.
         if source = js ''a { b: c }'' \<and> \<not> indented
         then Some (js ''a {'' @ LF @ js ''  b: c;'' @ LF @ js ''}'') else None),
      less_render = (\<lambda>source. None),
      toLowerCase = sample_toLowerCase,
      toLocaleLowerCase = sample_toLowerCase,
      localeCompare = sample_compare,
      axios_get = (\<lambda>url. None),
      getGistLabel = gist_id,
      getGistDescription = (\<lambda>g. [])\<rparr>"

definition jsx_gist :: "jsstring \<Rightarrow> gist" where
  "jsx_gist manifestText =
     \<lparr>gist_id = js ''g1'',
      files = [(js ''script.jsx'', \<lparr>content = Some (js ''const a = <b/>;'')\<rparr>),
               (js ''playground.json'', \<lparr>content = Some manifestText\<rparr>)]\<rparr>"

definition pug_first_gist :: gist where
  "pug_first_gist =
     \<lparr>gist_id = js ''g2'',
      files = [(js ''index.pug'', \<lparr>content = Some (js ''p hi'')\<rparr>),
               (js ''index.html'', \<lparr>content = Some (js ''<p>hi</p>'')\<rparr>)]\<rparr>"

definition html_first_gist :: gist where
  "html_first_gist =
     \<lparr>gist_id = js ''g2'',
      files = [(js ''index.html'', \<lparr>content = Some (js ''<p>hi</p>'')\<rparr>),
               (js ''index.pug'', \<lparr>content = Some (js ''p hi'')\<rparr>)]\<rparr>"

definition three_role_gist :: gist where
  "three_role_gist =
     \<lparr>gist_id = js ''g3'',
      files = [(js ''index.html'', \<lparr>content = Some (js ''<p>hi</p>'')\<rparr>),
               (js ''script.js'', \<lparr>content = Some (js ''let a;'')\<rparr>),
               (js ''style.scss'', \<lparr>content = Some (js ''a { b: c }'')\<rparr>)]\<rparr>"

definition react_template :: GalleryTemplate where
  "react_template = \<lparr>label = js ''React'', description = js ''A React playground'', gist = js ''t1''\<rparr>"

definition vue_template :: GalleryTemplate where
  "vue_template = \<lparr>label = js ''Vue'', description = js ''A Vue playground'', gist = js ''t2''\<rparr>"

definition sample_css :: jsstring where
  "sample_css = js ''a {'' @ LF @ js ''  b: c;'' @ LF @ js ''}''"

definition sample_document :: "string \<Rightarrow> jsstring \<Rightarrow> document" where
  "sample_document name txt =
     \<lparr>uri_authority = js ''g3'', uri_toString = js ''gist://g3/'' @ js name, getText = txt\<rparr>"

definition sample_playground :: "int playground" where
  "sample_playground =
     \<lparr>pg_gist = three_role_gist,
      jsDocument = Some (sample_document ''script.js'' (js ''let a;'')),
      pg_manifest = JObj [],
      runOnEdit = True\<rparr>"

section \<open>Facts about \<^verbatim>\<open>Set\<close> and the manifest's scripts\<close>

lemma sameValueZero_JStr [simp]: "sameValueZero y (JStr s) \<longleftrightarrow> y = JStr s"
  by (cases y) auto

lemma foldl_setAdd_strings:
  "\<forall>x \<in> set xs. isString x \<Longrightarrow> distinct (acc @ xs) \<Longrightarrow> foldl setAdd acc xs = acc @ xs"
proof (induction xs arbitrary: acc)
  case Nil
  then show ?case by simp
next
  case (Cons x xs)
  from Cons.prems obtain s where x: "x = JStr s" by (auto simp: isString_def)
  from Cons.prems have "x \<notin> set acc" by auto
  then have step: "setAdd acc x = acc @ [x]" by (simp add: setAdd_def x)
  from Cons.prems have "distinct ((acc @ [x]) @ xs)" by auto
  with Cons.IH [of "acc @ [x]"] Cons.prems step show ?case by simp
qed

lemma newSet_strings: "\<forall>x \<in> set xs. isString x \<Longrightarrow> distinct xs \<Longrightarrow> newSet xs = xs"
  using foldl_setAdd_strings [of xs "[]"] by (simp add: newSet_def)

lemma newSet_append2: "newSet (xs @ [a, b]) = setAdd (setAdd (newSet xs) a) b"
  by (simp add: newSet_def)

lemma setAdd_JStr: "setAdd seen (JStr s) = (if JStr s \<in> set seen then seen else seen @ [JStr s])"
  by (simp add: setAdd_def)

lemma JStr_in_setAdd: "JStr s \<in> set (setAdd acc x) \<longleftrightarrow> JStr s \<in> set acc \<or> x = JStr s"
proof (cases "\<exists>y \<in> set acc. sameValueZero y x")
  case True
  then have "x = JStr s \<Longrightarrow> JStr s \<in> set acc" by auto
  with True show ?thesis by (auto simp: setAdd_def)
next
  case False
  then show ?thesis by (auto simp: setAdd_def)
qed

lemma JStr_in_foldl_setAdd:
  "JStr s \<in> set (foldl setAdd acc xs) \<longleftrightarrow> JStr s \<in> set acc \<or> JStr s \<in> set xs"
proof (induction xs arbitrary: acc)
  case Nil
  show ?case by simp
next
  case (Cons x xs)
  show ?case by (simp add: Cons.IH JStr_in_setAdd) blast
qed

lemma JStr_in_newSet: "JStr s \<in> set (newSet xs) \<longleftrightarrow> JStr s \<in> set xs"
  by (simp add: newSet_def JStr_in_foldl_setAdd)

lemma noDuplicates_setAdd: "noDuplicates acc \<Longrightarrow> noDuplicates (setAdd acc x)"
  by (auto simp: noDuplicates_def setAdd_def sorted_wrt_append)

lemma noDuplicates_foldl: "noDuplicates acc \<Longrightarrow> noDuplicates (foldl setAdd acc xs)"
  by (induction xs arbitrary: acc) (simp_all add: noDuplicates_setAdd)

lemma noDuplicates_newSet: "noDuplicates (newSet xs)"
  using noDuplicates_foldl [of "[]" xs] by (simp add: newSet_def noDuplicates_def)

lemma includesReactScripts_JArr:
  "includesReactScripts (Some (JArr xs)) =
     Inr (JStr (js ''react'') \<in> set xs \<and> JStr (js ''react-dom'') \<in> set xs)"
  by (simp add: includesReactScripts_def REACT_SCRIPTS_def)

lemma map_of_assign: "map_of (assign kvs k v) k = Some v"
  by (induction kvs) auto

lemma map_fst_assign: "map_of kvs k = Some v' \<Longrightarrow> map fst (assign kvs k v) = map fst kvs"
  by (induction kvs) (auto split: if_splits)

lemma push_json_Inr:
  "push_json scripts items = Inr pushed \<Longrightarrow> \<exists>xs. scripts = Some (JArr xs) \<and> pushed = xs @ items"
  by (erule push_json.elims) auto

lemma getProp_Some:
  "getProp v k = Inr (Some x) \<Longrightarrow> \<exists>kvs. v = JObj kvs \<and> map_of kvs k = Some x"
  by (erule getProp.elims) auto

lemma jsx_gist_react: "includesReactFiles (jsx_gist m)"
  by (simp add: includesReactFiles_def jsx_gist_def isReactFile_def REACT_EXTENSIONS_def
      extname_def basename_def CHAR_DOT_def CHAR_FORWARD_SLASH_def js_def)

lemma jsx_gist_manifest:
  "map_of (files (jsx_gist m)) PLAYGROUND_FILE = Some \<lparr>content = Some m\<rparr>"
  by (simp add: jsx_gist_def PLAYGROUND_FILE_def js_def)

section \<open>Manifest resolution: injection of the React libraries\<close>

text \<open>
  C2. When the bundle holds a file with a React extension and the scripts array of its
  parsed manifest lacks \<^verbatim>\<open>react\<close> or \<^verbatim>\<open>react-dom\<close>, \<^verbatim>\<open>getManifestContent\<close> returns the
  manifest serialised with indentation 2 in which the scripts are the old ones followed by
  both libraries, each value kept once at its first place; it writes that text to the
  manifest file of the bundle exactly once. For a list of distinct strings this is the old
  list with the missing libraries appended.
\<close>

theorem getManifestContent_injects_react:
  assumes react: "includesReactFiles g"
    and present: "map_of (files g) PLAYGROUND_FILE = Some f"
    and has_text: "content f = Some manifestText"
    and parse: "JSON_parse h manifestText = Some (JObj kvs)"
    and scripts: "map_of kvs (js ''scripts'') = Some (JArr xs)"
    and missing: "\<not> (JStr (js ''react'') \<in> set xs \<and> JStr (js ''react-dom'') \<in> set xs)"
  shows "getManifestContent h g =
           (let rewritten = JSON_stringify h
                  (JObj (assign kvs (js ''scripts'')
                     (JArr (newSet (xs @ [JStr (js ''react''), JStr (js ''react-dom'')]))))) 2
            in ([WriteFile (gist_id g) PLAYGROUND_FILE rewritten], Inr (Some rewritten)))
         \<and> ((\<forall>x \<in> set xs. isString x) \<and> distinct xs \<longrightarrow>
              newSet (xs @ [JStr (js ''react''), JStr (js ''react-dom'')]) =
              xs @ filter (\<lambda>x. x \<notin> set xs) [JStr (js ''react''), JStr (js ''react-dom'')])"
proof
  have inc: "includesReactScripts (Some (JArr xs)) = Inr False"
    using missing by (simp add: includesReactScripts_JArr)
  show "getManifestContent h g =
           (let rewritten = JSON_stringify h
                  (JObj (assign kvs (js ''scripts'')
                     (JArr (newSet (xs @ [JStr (js ''react''), JStr (js ''react-dom'')]))))) 2
            in ([WriteFile (gist_id g) PLAYGROUND_FILE rewritten], Inr (Some rewritten)))"
    using react present has_text parse scripts inc
    by (simp add: getManifestContent_def parseContent_def REACT_SCRIPTS_def Let_def)
next
  have neq: "js ''react'' \<noteq> js ''react-dom''" by (simp add: js_def)
  show "(\<forall>x \<in> set xs. isString x) \<and> distinct xs \<longrightarrow>
           newSet (xs @ [JStr (js ''react''), JStr (js ''react-dom'')]) =
           xs @ filter (\<lambda>x. x \<notin> set xs) [JStr (js ''react''), JStr (js ''react-dom'')]"
    using neq by (auto simp: newSet_append2 newSet_strings setAdd_JStr)
qed

text \<open>The scenario of the specification: \<^verbatim>\<open>script.jsx\<close> beside the manifest
  \<^verbatim>\<open>{"scripts":["lodash"]}\<close>.\<close>

theorem getManifestContent_injects_react_witness:
  "getManifestContent sample_host (jsx_gist lodash_manifest) =
     ([WriteFile (js ''g1'') (js ''playground.json'') lodash_react_manifest],
      Inr (Some lodash_react_manifest))
   \<and> sample_parse lodash_react_manifest =
       Some (JObj [(js ''scripts'',
                    JArr [JStr (js ''lodash''), JStr (js ''react''), JStr (js ''react-dom'')])])"
proof -
  have parses: "JSON_parse sample_host lodash_manifest =
      Some (JObj [(js ''scripts'', JArr [JStr (js ''lodash'')])])"
    by (simp add: sample_host_def sample_parse_def)
  have scripts: "map_of [(js ''scripts'', JArr [JStr (js ''lodash'') :: int json])] (js ''scripts'')
      = Some (JArr [JStr (js ''lodash'')])"
    by simp
  have missing: "\<not> (JStr (js ''react'') \<in> set [JStr (js ''lodash'') :: int json]
      \<and> JStr (js ''react-dom'') \<in> set [JStr (js ''lodash'') :: int json])"
    by (simp add: js_def)
  have strs: "(\<forall>x \<in> set [JStr (js ''lodash'') :: int json]. isString x)
      \<and> distinct [JStr (js ''lodash'') :: int json]"
    by (simp add: isString_def)
  note main = getManifestContent_injects_react
    [OF jsx_gist_react jsx_gist_manifest _ parses scripts missing, simplified]
  from main strs
  have list: "newSet [JStr (js ''lodash'') :: int json, JStr (js ''react''), JStr (js ''react-dom'')]
      = [JStr (js ''lodash''), JStr (js ''react''), JStr (js ''react-dom'')]"
    by (simp add: js_def)
  have differ: "lodash_manifest \<noteq> lodash_react_manifest"
    by (simp add: lodash_manifest_def lodash_react_manifest_def js_def LF_def)
  show ?thesis
    using main list differ
    by (simp add: Let_def sample_host_def sample_stringify_def sample_parse_def
        jsx_gist_def PLAYGROUND_FILE_def)
qed

lemma getManifestContent_rewrite:
  assumes react: "includesReactFiles g"
    and present: "map_of (files g) PLAYGROUND_FILE = Some f"
    and has_text: "content f = Some manifestText"
    and parse: "JSON_parse h manifestText = Some (JObj kvs)"
    and scripts: "map_of kvs (js ''scripts'') = Some (JArr xs)"
    and missing: "\<not> (JStr (js ''react'') \<in> set xs \<and> JStr (js ''react-dom'') \<in> set xs)"
  shows "getManifestContent h g =
           ([WriteFile (gist_id g) PLAYGROUND_FILE
               (JSON_stringify h (JObj (assign kvs (js ''scripts'')
                  (JArr (newSet (xs @ [JStr (js ''react''), JStr (js ''react-dom'')]))))) 2)],
            Inr (Some (JSON_stringify h (JObj (assign kvs (js ''scripts'')
                  (JArr (newSet (xs @ [JStr (js ''react''), JStr (js ''react-dom'')]))))) 2)))"
proof -
  have inc: "includesReactScripts (Some (JArr xs)) = Inr False"
    using missing by (simp add: includesReactScripts_JArr)
  show ?thesis
    using react present has_text parse scripts inc
    by (simp add: getManifestContent_def parseContent_def REACT_SCRIPTS_def Let_def)
qed

lemma getManifestContent_unchanged:
  assumes react: "includesReactFiles g"
    and present: "map_of (files g) PLAYGROUND_FILE = Some f"
    and has_text: "content f = Some manifestText"
    and parse: "JSON_parse h manifestText = Some (JObj kvs)"
    and scripts: "map_of kvs (js ''scripts'') = Some (JArr xs)"
    and both: "JStr (js ''react'') \<in> set xs" "JStr (js ''react-dom'') \<in> set xs"
  shows "getManifestContent h g = ([], Inr (Some manifestText))"
proof -
  have inc: "includesReactScripts (Some (JArr xs)) = Inr True"
    using both by (simp add: includesReactScripts_JArr)
  show ?thesis
    using react present has_text parse scripts inc
    by (simp add: getManifestContent_def parseContent_def Let_def)
qed

lemma getManifestContent_cases:
  assumes "getManifestContent h g = (effs, r)"
  shows "effs = [] \<or>
         (\<exists>f manifestText kvs xs.
            includesReactFiles g \<and> map_of (files g) PLAYGROUND_FILE = Some f \<and>
            content f = Some manifestText \<and> JSON_parse h manifestText = Some (JObj kvs) \<and>
            map_of kvs (js ''scripts'') = Some (JArr xs) \<and>
            \<not> (JStr (js ''react'') \<in> set xs \<and> JStr (js ''react-dom'') \<in> set xs))"
proof (cases "map_of (files g) PLAYGROUND_FILE")
  case None
  with assms show ?thesis by (simp add: getManifestContent_def)
next
  case (Some f)
  show ?thesis
  proof (cases "includesReactFiles g")
    case False
    with assms Some show ?thesis by (simp add: getManifestContent_def)
  next
    case True
    note react = this
    show ?thesis
    proof (cases "parseContent h (content f)")
      case (Inl e)
      with assms Some react show ?thesis by (simp add: getManifestContent_def)
    next
      case (Inr pm)
      then obtain manifestText where has_text: "content f = Some manifestText"
        and parsed: "JSON_parse h manifestText = Some pm"
        by (auto simp: parseContent_def split: option.splits)
      show ?thesis
      proof (cases "getProp pm (js ''scripts'')")
        case (Inl e)
        with assms Some react Inr show ?thesis by (simp add: getManifestContent_def)
      next
        case scripts: (Inr scripts)
        show ?thesis
        proof (cases "includesReactScripts scripts")
          case (Inl e)
          with assms Some react Inr scripts show ?thesis by (simp add: getManifestContent_def)
        next
          case inc: (Inr b)
          show ?thesis
          proof (cases b)
            case True
            with assms Some react Inr scripts inc show ?thesis
              by (simp add: getManifestContent_def)
          next
            case False
            show ?thesis
            proof (cases "push_json scripts (map JStr REACT_SCRIPTS)")
              case (Inl e)
              with assms Some react Inr scripts inc False show ?thesis
                by (simp add: getManifestContent_def)
            next
              case pushed: (Inr pushed)
              then obtain xs where xs: "scripts = Some (JArr xs)"
                by (auto dest: push_json_Inr)
              with scripts obtain kvs where kvs: "pm = JObj kvs"
                  "map_of kvs (js ''scripts'') = Some (JArr xs)"
                by (auto dest: getProp_Some)
              from inc False xs
              have "\<not> (JStr (js ''react'') \<in> set xs \<and> JStr (js ''react-dom'') \<in> set xs)"
                by (simp add: includesReactScripts_JArr)
              with react Some has_text parsed kvs show ?thesis by blast
            qed
          qed
        qed
      qed
    qed
  qed
qed

lemma includesReactFiles_assign:
  "map_of (files g) k = Some f \<Longrightarrow>
   includesReactFiles (g\<lparr>files := assign (files g) k f'\<rparr>) = includesReactFiles g"
  by (simp add: includesReactFiles_def map_fst_assign)

section \<open>Manifest resolution: running it again\<close>

text \<open>
  C3 (as amended). Let \<^verbatim>\<open>getManifestContent\<close> run on a bundle, let its writes land in the
  bundle, and let \<^verbatim>\<open>JSON.parse\<close> read back what \<^verbatim>\<open>JSON.stringify\<close> wrote. Then a second run
  returns what the first returned and writes nothing. Whenever the first run rewrote the
  manifest, the scripts it wrote hold \<^verbatim>\<open>react\<close> and \<^verbatim>\<open>react-dom\<close> and no value twice. A
  manifest that is not rewritten is returned as it is.
\<close>

theorem getManifestContent_idempotent:
  assumes first: "getManifestContent h g = (effs, r)"
    and readback: "\<And>c v. WriteFile (gist_id g) PLAYGROUND_FILE c \<in> set effs \<Longrightarrow>
                     JSON_stringify h v 2 = c \<Longrightarrow> JSON_parse h c = Some v"
  shows "getManifestContent h (persist effs g) = ([], r) \<and>
         (effs \<noteq> [] \<longrightarrow>
            (\<exists>kvs ys. r = Inr (Some (JSON_stringify h (JObj kvs) 2)) \<and>
               effs = [WriteFile (gist_id g) PLAYGROUND_FILE (JSON_stringify h (JObj kvs) 2)] \<and>
               map_of kvs (js ''scripts'') = Some (JArr ys) \<and> noDuplicates ys \<and>
               JStr (js ''react'') \<in> set ys \<and> JStr (js ''react-dom'') \<in> set ys))"
proof (cases "effs = []")
  case True
  with first show ?thesis by simp
next
  case False
  with getManifestContent_cases [OF first]
  obtain f manifestText kvs xs where
    react: "includesReactFiles g" and
    present: "map_of (files g) PLAYGROUND_FILE = Some f" and
    has_text: "content f = Some manifestText" and
    parse: "JSON_parse h manifestText = Some (JObj kvs)" and
    scripts: "map_of kvs (js ''scripts'') = Some (JArr xs)" and
    missing: "\<not> (JStr (js ''react'') \<in> set xs \<and> JStr (js ''react-dom'') \<in> set xs)"
    by blast
  define ys where "ys = newSet (xs @ [JStr (js ''react''), JStr (js ''react-dom'')])"
  define kvs' where "kvs' = assign kvs (js ''scripts'') (JArr ys)"
  define c where "c = JSON_stringify h (JObj kvs') 2"
  from getManifestContent_rewrite [OF react present has_text parse scripts missing] first
  have effs: "effs = [WriteFile (gist_id g) PLAYGROUND_FILE c]" and r: "r = Inr (Some c)"
    by (simp_all add: c_def kvs'_def ys_def)
  have ys: "JStr (js ''react'') \<in> set ys" "JStr (js ''react-dom'') \<in> set ys" "noDuplicates ys"
    by (simp_all add: ys_def JStr_in_newSet noDuplicates_newSet)
  have kvs': "map_of kvs' (js ''scripts'') = Some (JArr ys)"
    by (simp add: kvs'_def map_of_assign)
  have written: "WriteFile (gist_id g) PLAYGROUND_FILE c \<in> set effs"
    by (simp add: effs)
  have serialised: "JSON_stringify h (JObj kvs') 2 = c"
    by (simp add: c_def)
  have reparse: "JSON_parse h c = Some (JObj kvs')"
    using written serialised by (rule readback)
  let ?g = "g\<lparr>files := assign (files g) PLAYGROUND_FILE \<lparr>content = Some c\<rparr>\<rparr>"
  have persisted: "persist effs g = ?g"
    by (simp add: effs)
  have react': "includesReactFiles ?g"
    using react present by (simp add: includesReactFiles_assign)
  have present': "map_of (files ?g) PLAYGROUND_FILE = Some \<lparr>content = Some c\<rparr>"
    by (simp add: map_of_assign)
  have "getManifestContent h ?g = ([], Inr (Some c))"
    by (rule getManifestContent_unchanged [OF react' present' _ reparse kvs' ys(1,2)]) simp
  with persisted r have again: "getManifestContent h (persist effs g) = ([], r)"
    by simp
  from r effs kvs' ys serialised
  have "\<exists>kvs ys. r = Inr (Some (JSON_stringify h (JObj kvs) 2)) \<and>
               effs = [WriteFile (gist_id g) PLAYGROUND_FILE (JSON_stringify h (JObj kvs) 2)] \<and>
               map_of kvs (js ''scripts'') = Some (JArr ys) \<and> noDuplicates ys \<and>
               JStr (js ''react'') \<in> set ys \<and> JStr (js ''react-dom'') \<in> set ys"
    by blast
  with again show ?thesis by blast
qed

lemma stringify_lodash_react:
  "sample_stringify v 2 = lodash_react_manifest \<Longrightarrow>
   v = JObj [(js ''scripts'',
              JArr [JStr (js ''lodash''), JStr (js ''react''), JStr (js ''react-dom'')])]"
  by (auto simp: sample_stringify_def lodash_react_manifest_def js_def LF_def split: if_splits)

lemma getManifestContent_lodash:
  "getManifestContent sample_host (jsx_gist lodash_manifest) =
     ([WriteFile (js ''g1'') PLAYGROUND_FILE lodash_react_manifest],
      Inr (Some lodash_react_manifest))"
proof -
  have parses: "JSON_parse sample_host lodash_manifest =
      Some (JObj [(js ''scripts'', JArr [JStr (js ''lodash'')])])"
    by (simp add: sample_host_def sample_parse_def)
  have missing: "\<not> (JStr (js ''react'') \<in> set [JStr (js ''lodash'') :: int json]
      \<and> JStr (js ''react-dom'') \<in> set [JStr (js ''lodash'') :: int json])"
    by (simp add: js_def)
  have list: "newSet [JStr (js ''lodash'') :: int json, JStr (js ''react''), JStr (js ''react-dom'')]
      = [JStr (js ''lodash''), JStr (js ''react''), JStr (js ''react-dom'')]"
    by (rule newSet_strings) (simp_all add: isString_def js_def)
  show ?thesis
    using getManifestContent_rewrite [OF jsx_gist_react jsx_gist_manifest _ parses _ missing] list
    by (simp add: sample_host_def sample_stringify_def jsx_gist_def)
qed

theorem getManifestContent_idempotent_witness:
  "getManifestContent sample_host
     (persist [WriteFile (js ''g1'') PLAYGROUND_FILE lodash_react_manifest]
        (jsx_gist lodash_manifest)) =
     ([], Inr (Some lodash_react_manifest))
   \<and> noDuplicates [JStr (js ''lodash'') :: int json, JStr (js ''react''), JStr (js ''react-dom'')]"
proof -
  have readback: "JSON_parse sample_host c = Some v"
    if "WriteFile (gist_id (jsx_gist lodash_manifest)) PLAYGROUND_FILE c
          \<in> set [WriteFile (js ''g1'') PLAYGROUND_FILE lodash_react_manifest]"
      and "JSON_stringify sample_host v 2 = c" for c v
  proof -
    from that(1) have c: "c = lodash_react_manifest" by simp
    with that(2) have "sample_stringify v 2 = lodash_react_manifest"
      by (simp add: sample_host_def)
    then have "v = JObj [(js ''scripts'',
              JArr [JStr (js ''lodash''), JStr (js ''react''), JStr (js ''react-dom'')])]"
      by (rule stringify_lodash_react)
    moreover have "lodash_manifest \<noteq> lodash_react_manifest"
      by (simp add: lodash_manifest_def lodash_react_manifest_def js_def LF_def)
    ultimately show ?thesis
      using c by (simp add: sample_host_def sample_parse_def)
  qed
  from getManifestContent_idempotent [OF getManifestContent_lodash readback]
  show ?thesis
    by (simp add: noDuplicates_def js_def)
qed

text \<open>A manifest that already names both libraries is returned untouched, repeated
  entries included: \<^verbatim>\<open>script.jsx\<close> beside \<^verbatim>\<open>{"scripts":["react","react","react-dom"]}\<close>.\<close>

theorem getManifestContent_keeps_duplicates:
  "getManifestContent sample_host (jsx_gist repeated_manifest) =
     ([], Inr (Some repeated_manifest))
   \<and> sample_parse repeated_manifest =
       Some (JObj [(js ''scripts'',
                    JArr [JStr (js ''react''), JStr (js ''react''), JStr (js ''react-dom'')])])
   \<and> \<not> noDuplicates [JStr (js ''react'') :: int json, JStr (js ''react''), JStr (js ''react-dom'')]"
proof -
  have differ: "repeated_manifest \<noteq> lodash_manifest" "repeated_manifest \<noteq> lodash_react_manifest"
    by (simp_all add: repeated_manifest_def lodash_manifest_def lodash_react_manifest_def
        js_def LF_def)
  then have parses: "JSON_parse sample_host repeated_manifest =
      Some (JObj [(js ''scripts'',
                   JArr [JStr (js ''react''), JStr (js ''react''), JStr (js ''react-dom'')])])"
    by (simp add: sample_host_def sample_parse_def)
  have scripts: "map_of [(js ''scripts'',
        JArr [JStr (js ''react'') :: int json, JStr (js ''react''), JStr (js ''react-dom'')])]
      (js ''scripts'') =
      Some (JArr [JStr (js ''react''), JStr (js ''react''), JStr (js ''react-dom'')])"
    by simp
  have "getManifestContent sample_host (jsx_gist repeated_manifest) =
     ([], Inr (Some repeated_manifest))"
    by (rule getManifestContent_unchanged [OF jsx_gist_react jsx_gist_manifest _ parses scripts])
      simp_all
  with parses show ?thesis
    by (simp add: sample_host_def noDuplicates_def)
qed

section \<open>Transpiler adapters on blank content\<close>

lemma dropWhile_all:
  "(\<forall>c \<in> set (dropWhile P s). P c) \<longleftrightarrow> dropWhile P s = []"
proof
  assume all: "\<forall>c \<in> set (dropWhile P s). P c"
  show "dropWhile P s = []"
  proof (rule ccontr)
    assume ne: "dropWhile P s \<noteq> []"
    then have "\<not> P (hd (dropWhile P s))" by (rule hd_dropWhile)
    moreover from ne have "hd (dropWhile P s) \<in> set (dropWhile P s)" by (rule hd_in_set)
    ultimately show False using all by blast
  qed
next
  assume "dropWhile P s = []"
  then show "\<forall>c \<in> set (dropWhile P s). P c" by (simp del: dropWhile_eq_Nil_conv)
qed

lemma trim_eq_Nil: "trim s = [] \<longleftrightarrow> (\<forall>c \<in> set s. isWhiteSpaceOrLineTerminator c)"
proof -
  have "trim s = [] \<longleftrightarrow>
      (\<forall>c \<in> set (dropWhile isWhiteSpaceOrLineTerminator s). isWhiteSpaceOrLineTerminator c)"
    by (simp add: trim_def dropWhile_eq_Nil_conv)
  also have "\<dots> \<longleftrightarrow> dropWhile isWhiteSpaceOrLineTerminator s = []"
    by (rule dropWhile_all)
  also have "\<dots> \<longleftrightarrow> (\<forall>c \<in> set s. isWhiteSpaceOrLineTerminator c)"
    by (rule dropWhile_eq_Nil_conv)
  finally show ?thesis .
qed

text \<open>
  C9. On a document whose text is the empty string, each of the three adapters returns
  the empty string, whatever the extension of the document, the manifest and the
  transpilers; no transpiler is called, so none can fail.
\<close>

theorem transpile_empty:
  "getScriptContent h (d\<lparr>getText := []\<rparr>) m = ([], Inr (Some []))
   \<and> getMarkupContent h (d\<lparr>getText := []\<rparr>) = ([], Some [])
   \<and> getStylesheetContent h (d\<lparr>getText := []\<rparr>) = ([], Some [])"
  by (simp add: getScriptContent_def getMarkupContent_def getStylesheetContent_def trim_def)

text \<open>
  C10. On a document whose text consists of WhiteSpace and LineTerminator code units only,
  each of the three adapters returns the text unchanged and calls no transpiler: the
  result is never \<^verbatim>\<open>null\<close>.
\<close>

theorem transpile_whitespace_only:
  assumes "\<forall>c \<in> set (getText d). isWhiteSpaceOrLineTerminator c"
  shows "getScriptContent h d m = ([], Inr (Some (getText d)))
   \<and> getMarkupContent h d = ([], Some (getText d))
   \<and> getStylesheetContent h d = ([], Some (getText d))"
proof -
  from assms have "trim (getText d) = []" by (simp add: trim_eq_Nil)
  then show ?thesis
    by (simp add: getScriptContent_def getMarkupContent_def getStylesheetContent_def)
qed

text \<open>Blank \<^verbatim>\<open>style.scss\<close>, \<^verbatim>\<open>index.pug\<close> and \<^verbatim>\<open>script.tsx\<close> documents, on a host whose
  transpilers would fail on that text.\<close>

theorem transpile_whitespace_only_witness:
  "getStylesheetContent sample_host (sample_document ''style.scss'' [0x20, 0x0A, 0x09, 0x2028])
     = ([], Some [0x20, 0x0A, 0x09, 0x2028])
   \<and> getMarkupContent sample_host (sample_document ''index.pug'' [0x20, 0x0A, 0x09, 0x2028])
     = ([], Some [0x20, 0x0A, 0x09, 0x2028])
   \<and> getScriptContent sample_host (sample_document ''script.tsx'' [0x20, 0x0A, 0x09, 0x2028]) None
     = ([], Inr (Some [0x20, 0x0A, 0x09, 0x2028]))
   \<and> sass_renderSync sample_host [0x20, 0x0A, 0x09, 0x2028] False = None
   \<and> pug_render sample_host [0x20, 0x0A, 0x09, 0x2028] = None"
proof -
  have ws: "\<forall>c \<in> set (getText (sample_document name [0x20, 0x0A, 0x09, 0x2028])).
      isWhiteSpaceOrLineTerminator c" for name
    by (simp add: sample_document_def isWhiteSpaceOrLineTerminator_def)
  show ?thesis
    using transpile_whitespace_only [OF ws, of sample_host "''style.scss''" None]
      transpile_whitespace_only [OF ws, of sample_host "''index.pug''" None]
      transpile_whitespace_only [OF ws, of sample_host "''script.tsx''" None]
    by (simp add: sample_document_def sample_host_def js_def)
qed

section \<open>The change handler on a failed transpile\<close>

lemma fileCandidates_markup:
  "fileCandidates markup = [js ''index.html'', js ''index.pug'']"
  by (simp add: fileCandidates_def MARKUP_EXTENSIONS_def MARKUP_BASE_NAME_def js_def)

lemma fileCandidates_stylesheet:
  "fileCandidates stylesheet = [js ''style.css'', js ''style.less'', js ''style.sass'', js ''style.scss'']"
  by (simp add: fileCandidates_def STYLESHEET_EXTENSIONS_def STYLESHEET_BASE_NAME_def js_def)

lemma fileCandidates_script:
  "fileCandidates script =
     [js ''script.js'', js ''script.mjs'', js ''script.ts'', js ''script.babel'',
      js ''script.jsx'', js ''script.tsx'']"
  by (simp add: fileCandidates_def SCRIPT_EXTENSIONS_def MODULE_EXTENSIONS_def
      TYPESCRIPT_EXTENSIONS_def REACT_EXTENSIONS_def SCRIPT_BASE_NAME_def js_def)

lemma markup_prefix: "x \<in> set (fileCandidates markup) \<Longrightarrow> take 2 x = js ''in''"
  unfolding fileCandidates_markup by (auto simp: js_def)

lemma stylesheet_prefix: "x \<in> set (fileCandidates stylesheet) \<Longrightarrow> take 2 x = js ''st''"
  unfolding fileCandidates_stylesheet by (auto simp: js_def)

lemma script_prefix: "x \<in> set (fileCandidates script) \<Longrightarrow> take 2 x = js ''sc''"
  unfolding fileCandidates_script by (auto simp: js_def)

lemma stylesheet_not_markup:
  "x \<in> set (fileCandidates stylesheet) \<Longrightarrow> x \<notin> set (fileCandidates markup)"
proof
  assume a: "x \<in> set (fileCandidates stylesheet)" and b: "x \<in> set (fileCandidates markup)"
  from stylesheet_prefix [OF a] markup_prefix [OF b] show False by (simp add: js_def)
qed

lemma stylesheet_not_script:
  "x \<in> set (fileCandidates stylesheet) \<Longrightarrow> x \<notin> set (fileCandidates script)"
proof
  assume a: "x \<in> set (fileCandidates stylesheet)" and b: "x \<in> set (fileCandidates script)"
  from stylesheet_prefix [OF a] script_prefix [OF b] show False by (simp add: js_def)
qed

lemma getMarkupContent_effects: "filter isUpdate (fst (getMarkupContent h d)) = []"
  by (simp add: getMarkupContent_def Let_def isUpdate_def)

lemma getStylesheetContent_effects: "filter isUpdate (fst (getStylesheetContent h d)) = []"
  by (simp add: getStylesheetContent_def Let_def isUpdate_def)

lemma changeHandler_markup_null:
  assumes "isPlaygroundDocument (pg_gist pg) d markup" "snd (getMarkupContent h d) = None"
  shows "changeHandler h pg d = (fst (getMarkupContent h d), None, pg)"
  using assms by (cases "getMarkupContent h d") (simp add: changeHandler_def)

lemma changeHandler_stylesheet_null:
  assumes "isPlaygroundDocument (pg_gist pg) d stylesheet"
    "\<not> isPlaygroundManifestFile h (pg_gist pg) d"
    "snd (getStylesheetContent h d) = None"
  shows "changeHandler h pg d = (fst (getStylesheetContent h d), None, pg)"
proof -
  from assms(1) have "\<not> isPlaygroundDocument (pg_gist pg) d markup"
    "\<not> isPlaygroundDocument (pg_gist pg) d script"
    by (auto simp: isPlaygroundDocument_def stylesheet_not_markup stylesheet_not_script
        split: if_splits)
  with assms show ?thesis
    by (cases "getStylesheetContent h d") (simp add: changeHandler_def)
qed

text \<open>
  C5. When a change event is for the markup document and \<^verbatim>\<open>getMarkupContent\<close> returns
  \<^verbatim>\<open>null\<close>, the handler issues no update of the preview surface at all, ends without an
  exception and leaves its variables as they were; the same holds for a stylesheet
  document on which \<^verbatim>\<open>getStylesheetContent\<close> returns \<^verbatim>\<open>null\<close>. The only effect is the
  transpiler call that failed.
\<close>

theorem failed_transpile_issues_no_update:
  "(isPlaygroundDocument (pg_gist pg) d markup \<and> snd (getMarkupContent h d) = None \<longrightarrow>
      changeHandler h pg d = (fst (getMarkupContent h d), None, pg) \<and>
      filter isUpdate (fst (changeHandler h pg d)) = [])
   \<and> (isPlaygroundDocument (pg_gist pg) d stylesheet \<and>
        \<not> isPlaygroundManifestFile h (pg_gist pg) d \<and>
        snd (getStylesheetContent h d) = None \<longrightarrow>
      changeHandler h pg d = (fst (getStylesheetContent h d), None, pg) \<and>
      filter isUpdate (fst (changeHandler h pg d)) = [])"
  by (simp add: changeHandler_markup_null changeHandler_stylesheet_null
      getMarkupContent_effects getStylesheetContent_effects)

lemma basename_sample:
  "basename (uri_toString (sample_document ''index.pug'' t)) = js ''index.pug''"
  "basename (uri_toString (sample_document ''style.scss'' t)) = js ''style.scss''"
  "basename (uri_toString (sample_document ''playground.json'' t)) = js ''playground.json''"
  by (simp_all add: sample_document_def basename_def CHAR_FORWARD_SLASH_def js_def)

lemma extname_sample:
  "extname (uri_toString (sample_document ''index.pug'' t)) = js ''.pug''"
  "extname (uri_toString (sample_document ''style.scss'' t)) = js ''.scss''"
  by (simp_all add: sample_document_def extname_def basename_def CHAR_FORWARD_SLASH_def
      CHAR_DOT_def js_def)

lemma sample_toLowerCase_ext:
  "sample_toLowerCase (js ''.pug'') = js ''.pug''"
  "sample_toLowerCase (js ''.scss'') = js ''.scss''"
  by (simp_all add: sample_toLowerCase_def js_def)

lemma sample_authority:
  "uri_authority (sample_document name t) = gist_id (pg_gist sample_playground)"
  by (simp add: sample_document_def sample_playground_def three_role_gist_def)

lemma getMarkupContent_broken_pug:
  "getMarkupContent sample_host (sample_document ''index.pug'' (js ''p('')) =
     ([PugRender (js ''p('')], None)"
proof -
  have "trim (js ''p('') \<noteq> []"
    by (simp add: trim_eq_Nil isWhiteSpaceOrLineTerminator_def js_def)
  moreover have "getText (sample_document ''index.pug'' (js ''p('')) = js ''p(''"
    by (simp add: sample_document_def)
  moreover have "pug_render sample_host (js ''p('') = None"
    "toLocaleLowerCase sample_host = sample_toLowerCase"
    by (simp_all add: sample_host_def js_def)
  ultimately show ?thesis
    by (simp add: getMarkupContent_def extname_sample sample_toLowerCase_ext)
qed

lemma getStylesheetContent_broken_scss:
  "getStylesheetContent sample_host (sample_document ''style.scss'' (js ''a {'')) =
     ([SassRenderSync (js ''a {'') False], None)"
proof -
  have "trim (js ''a {'') \<noteq> []"
    by (simp add: trim_eq_Nil isWhiteSpaceOrLineTerminator_def js_def)
  moreover have "getText (sample_document ''style.scss'' (js ''a {'')) = js ''a {''"
    by (simp add: sample_document_def)
  moreover have "sass_renderSync sample_host (js ''a {'') False = None"
    "toLocaleLowerCase sample_host = sample_toLowerCase"
    by (simp_all add: sample_host_def js_def)
  moreover have "js ''.scss'' \<noteq> js ''.sass''" by (simp add: js_def)
  ultimately show ?thesis
    by (simp add: getStylesheetContent_def extname_sample sample_toLowerCase_ext)
qed

lemma sample_isPlaygroundDocument:
  "isPlaygroundDocument (pg_gist sample_playground) (sample_document ''index.pug'' t) markup"
  "isPlaygroundDocument (pg_gist sample_playground) (sample_document ''style.scss'' t) stylesheet"
  "\<not> isPlaygroundDocument (pg_gist sample_playground) (sample_document ''playground.json'' t) markup"
  "\<not> isPlaygroundDocument (pg_gist sample_playground) (sample_document ''playground.json'' t) script"
  by (simp_all add: isPlaygroundDocument_def sample_authority basename_sample
      fileCandidates_markup fileCandidates_stylesheet fileCandidates_script js_def)

lemma sample_lower_uri:
  "sample_toLowerCase (uri_toString (sample_document ''style.scss'' t)) =
     uri_toString (sample_document ''style.scss'' t)"
  "sample_toLowerCase (uri_toString (sample_document ''playground.json'' t)) =
     uri_toString (sample_document ''playground.json'' t)"
  by (simp_all add: sample_toLowerCase_def sample_document_def js_def)

lemma sample_isPlaygroundManifestFile:
  "\<not> isPlaygroundManifestFile sample_host (pg_gist sample_playground)
       (sample_document ''style.scss'' t)"
  "isPlaygroundManifestFile sample_host (pg_gist sample_playground)
       (sample_document ''playground.json'' t)"
proof -
  have lower: "toLowerCase sample_host = sample_toLowerCase" by (simp add: sample_host_def)
  show "\<not> isPlaygroundManifestFile sample_host (pg_gist sample_playground)
       (sample_document ''style.scss'' t)"
    by (simp add: isPlaygroundManifestFile_def lower sample_lower_uri basename_sample
        PLAYGROUND_FILE_def) (simp add: js_def)
  show "isPlaygroundManifestFile sample_host (pg_gist sample_playground)
       (sample_document ''playground.json'' t)"
    by (simp add: isPlaygroundManifestFile_def lower sample_lower_uri basename_sample
        PLAYGROUND_FILE_def sample_authority)
qed

text \<open>An \<^verbatim>\<open>index.pug\<close> and a \<^verbatim>\<open>style.scss\<close> that their transpilers reject.\<close>

theorem failed_transpile_issues_no_update_witness:
  "changeHandler sample_host sample_playground (sample_document ''index.pug'' (js ''p('')) =
     ([PugRender (js ''p('')], None, sample_playground)
   \<and> changeHandler sample_host sample_playground (sample_document ''style.scss'' (js ''a {'')) =
     ([SassRenderSync (js ''a {'') False], None, sample_playground)"
  using failed_transpile_issues_no_update
      [of sample_playground "sample_document ''index.pug'' (js ''p('')" sample_host]
    failed_transpile_issues_no_update
      [of sample_playground "sample_document ''style.scss'' (js ''a {'')" sample_host]
  by (simp add: sample_isPlaygroundDocument sample_isPlaygroundManifestFile
      getMarkupContent_broken_pug getStylesheetContent_broken_scss)

section \<open>Manifests that do not parse\<close>

lemma getManifestContent_SyntaxError:
  assumes "includesReactFiles g" "map_of (files g) PLAYGROUND_FILE = Some f"
    "content f = Some manifestText" "JSON_parse h manifestText = None"
  shows "getManifestContent h g = ([], Inl SyntaxError)"
  using assms by (simp add: getManifestContent_def parseContent_def)

lemma getManifestContent_TypeError:
  assumes "includesReactFiles g" "map_of (files g) PLAYGROUND_FILE = Some f"
    "content f = Some manifestText" "JSON_parse h manifestText = Some (JObj kvs)"
    "map_of kvs (js ''scripts'') = None"
  shows "getManifestContent h g = ([], Inl TypeError)"
  using assms
  by (simp add: getManifestContent_def parseContent_def includesReactScripts_def
      REACT_SCRIPTS_def)

lemma changeHandler_manifest_SyntaxError:
  assumes "\<not> isPlaygroundDocument (pg_gist pg) d markup"
    "\<not> isPlaygroundDocument (pg_gist pg) d script"
    "isPlaygroundManifestFile h (pg_gist pg) d"
    "jsDocument pg = Some jsDoc" "JSON_parse h (getText d) = None"
  shows "changeHandler h pg d =
     ([UpdateManifest (Some (getText d)) (runOnEdit pg)], Some SyntaxError, pg)"
  using assms by (simp add: changeHandler_def)

lemma sample_parse_truncated: "sample_parse truncated_manifest = None"
  by (simp add: sample_parse_def truncated_manifest_def lodash_manifest_def
      lodash_react_manifest_def repeated_manifest_def styles_only_manifest_def js_def LF_def)

lemma sample_parse_styles_only:
  "sample_parse styles_only_manifest = Some (JObj [(js ''styles'', JArr [])])"
  by (simp add: sample_parse_def lodash_manifest_def
      lodash_react_manifest_def repeated_manifest_def styles_only_manifest_def js_def LF_def)

text \<open>
  C1. The claim is that a manifest which does not parse, or lacks its \<^verbatim>\<open>scripts\<close>, is
  replaced by the default manifest and that no exception leaves manifest resolution or the
  manifest branch of the change handler. In a bundle with a React file
  \<^verbatim>\<open>getManifestContent\<close> parses the manifest outside any \<^verbatim>\<open>try\<close>: a truncated manifest
  ends it with a SyntaxError and a manifest without \<^verbatim>\<open>scripts\<close> with a TypeError. In the
  change handler, with a script document open, a truncated manifest text is passed on to
  the preview surface and then ends the handler with a SyntaxError before the script layer
  is updated.
\<close>

theorem manifest_parse_failure_escapes:
  "getManifestContent sample_host (jsx_gist truncated_manifest) = ([], Inl SyntaxError)
   \<and> getManifestContent sample_host (jsx_gist styles_only_manifest) = ([], Inl TypeError)
   \<and> changeHandler sample_host sample_playground
        (sample_document ''playground.json'' truncated_manifest) =
      ([UpdateManifest (Some truncated_manifest) True], Some SyntaxError, sample_playground)"
proof (intro conjI)
  show "getManifestContent sample_host (jsx_gist truncated_manifest) = ([], Inl SyntaxError)"
    by (rule getManifestContent_SyntaxError
        [OF jsx_gist_react jsx_gist_manifest, where manifestText = truncated_manifest])
      (simp_all add: sample_host_def sample_parse_truncated)
  show "getManifestContent sample_host (jsx_gist styles_only_manifest) = ([], Inl TypeError)"
    by (rule getManifestContent_TypeError [OF jsx_gist_react jsx_gist_manifest,
          where kvs = "[(js ''styles'', JArr [])]" and manifestText = styles_only_manifest])
      (simp_all add: sample_host_def sample_parse_styles_only js_def)
  have "changeHandler sample_host sample_playground
        (sample_document ''playground.json'' truncated_manifest) =
      ([UpdateManifest (Some (getText (sample_document ''playground.json'' truncated_manifest)))
          (runOnEdit sample_playground)], Some SyntaxError, sample_playground)"
    by (rule changeHandler_manifest_SyntaxError
        [OF sample_isPlaygroundDocument(3,4) sample_isPlaygroundManifestFile(2),
          where jsDoc = "sample_document ''script.js'' (js ''let a;'')"])
      (simp_all add: sample_playground_def sample_document_def sample_host_def
        sample_parse_truncated)
  then show "changeHandler sample_host sample_playground
        (sample_document ''playground.json'' truncated_manifest) =
      ([UpdateManifest (Some truncated_manifest) True], Some SyntaxError, sample_playground)"
    by (simp add: sample_playground_def sample_document_def)
qed

section \<open>Role resolution in a bundle\<close>

lemma fileCandidates_iff:
  "f \<in> set (fileCandidates t) \<longleftrightarrow> (\<exists>ext \<in> set (extensions t). f = fileBaseName t @ ext)"
  by (auto simp: fileCandidates_def)

text \<open>
  C6 (as amended). For every role \<^verbatim>\<open>getGistFileOfType\<close> resolves at most one file. A file
  qualifies exactly when its name is the base name of the role followed by one of the
  role's extensions. The resolved file is the first qualifying file in the order of the
  bundle's keys; no file is resolved exactly when none qualifies. The order of the role's
  extension list plays no part.
\<close>

theorem getGistFileOfType_first_candidate:
  "(getGistFileOfType g t = Some f \<longleftrightarrow>
      (\<exists>i < length (files g). fst (files g ! i) = f \<and> f \<in> set (fileCandidates t) \<and>
         (\<forall>j < i. fst (files g ! j) \<notin> set (fileCandidates t))))
   \<and> (getGistFileOfType g t = None \<longleftrightarrow>
        (\<forall>k \<in> set (map fst (files g)). k \<notin> set (fileCandidates t)))
   \<and> (f \<in> set (fileCandidates t) \<longleftrightarrow>
        (\<exists>ext \<in> set (extensions t). f = fileBaseName t @ ext))"
proof (intro conjI)
  show "getGistFileOfType g t = Some f \<longleftrightarrow>
      (\<exists>i < length (files g). fst (files g ! i) = f \<and> f \<in> set (fileCandidates t) \<and>
         (\<forall>j < i. fst (files g ! j) \<notin> set (fileCandidates t)))"
    unfolding getGistFileOfType_def find_Some_iff by auto
  show "getGistFileOfType g t = None \<longleftrightarrow>
        (\<forall>k \<in> set (map fst (files g)). k \<notin> set (fileCandidates t))"
    unfolding getGistFileOfType_def find_None_iff by auto
  show "f \<in> set (fileCandidates t) \<longleftrightarrow>
        (\<exists>ext \<in> set (extensions t). f = fileBaseName t @ ext)"
    by (rule fileCandidates_iff)
qed

lemma getGistFileOfType_pug_first:
  "getGistFileOfType pug_first_gist markup = Some (js ''index.pug'')"
  by (simp add: getGistFileOfType_def pug_first_gist_def fileCandidates_markup js_def)

text \<open>A bundle that lists \<^verbatim>\<open>index.pug\<close> before \<^verbatim>\<open>index.html\<close>.\<close>

theorem getGistFileOfType_first_candidate_witness:
  "getGistFileOfType pug_first_gist markup = Some (js ''index.pug'')
   \<and> (\<exists>i < length (files pug_first_gist).
         fst (files pug_first_gist ! i) = js ''index.pug'' \<and>
         js ''index.pug'' \<in> set (fileCandidates markup) \<and>
         (\<forall>j < i. fst (files pug_first_gist ! j) \<notin> set (fileCandidates markup)))
   \<and> (\<exists>ext \<in> set (extensions markup). js ''index.pug'' = fileBaseName markup @ ext)"
proof -
  have member: "js ''index.pug'' \<in> set (fileCandidates markup)"
    by (simp add: fileCandidates_markup)
  from getGistFileOfType_first_candidate [of pug_first_gist markup "js ''index.pug''"]
    getGistFileOfType_pug_first member
  show ?thesis by blast
qed

text \<open>With \<^verbatim>\<open>index.pug\<close> listed before \<^verbatim>\<open>index.html\<close> the markup file is \<^verbatim>\<open>index.pug\<close>,
  although \<^verbatim>\<open>.html\<close> comes first among the markup extensions; the same two files in the
  other order resolve to \<^verbatim>\<open>index.html\<close>.\<close>

theorem getGistFileOfType_follows_bundle_order:
  "getGistFileOfType pug_first_gist markup = Some (js ''index.pug'')
   \<and> resolveByExtensionPriority pug_first_gist markup = Some (js ''index.html'')
   \<and> getGistFileOfType html_first_gist markup = Some (js ''index.html'')
   \<and> set (files pug_first_gist) = set (files html_first_gist)"
  by (simp add: getGistFileOfType_def resolveByExtensionPriority_def pug_first_gist_def
      html_first_gist_def fileCandidates_markup js_def insert_commute)

section \<open>The split-right layout\<close>

lemma layouts_distinct:
  "PlaygroundLayout_splitRight \<noteq> PlaygroundLayout_grid"
  "PlaygroundLayout_splitLeft \<noteq> PlaygroundLayout_grid"
  "PlaygroundLayout_splitLeft \<noteq> PlaygroundLayout_splitRight"
  "PlaygroundLayout_splitRight \<noteq> PlaygroundLayout_preview"
  by (simp_all add: PlaygroundLayout_splitRight_def PlaygroundLayout_grid_def
      PlaygroundLayout_splitLeft_def PlaygroundLayout_preview_def js_def)

text \<open>
  C7. For every bundle, the top-level groups of the editor layout computed under the
  preference \<^verbatim>\<open>splitRight\<close> are the reverse of those computed for the same bundle under a
  preference that neither asks for the grid nor is \<^verbatim>\<open>splitRight\<close> itself; the preview
  takes view column one and the editors take the columns from two on.
\<close>

theorem splitRight_reverses_groups:
  assumes "p \<noteq> PlaygroundLayout_grid" and "p \<noteq> PlaygroundLayout_splitRight"
  shows "(\<exists>gs. groups (editorLayout (selectLayout g p)) = Some gs \<and>
              groups (editorLayout (selectLayout g PlaygroundLayout_splitRight)) = Some (rev gs))
         \<and> previewViewColumn (selectLayout g PlaygroundLayout_splitRight) = 1
         \<and> currentViewColumn (selectLayout g PlaygroundLayout_splitRight) = 2
         \<and> map snd (editorViewColumns g PlaygroundLayout_splitRight) =
             [2 ..< 2 + includedFiles g]"
proof (intro conjI)
  show "\<exists>gs. groups (editorLayout (selectLayout g p)) = Some gs \<and>
              groups (editorLayout (selectLayout g PlaygroundLayout_splitRight)) = Some (rev gs)"
    using assms layouts_distinct(1)
    by (simp add: selectLayout_def Let_def EditorLayouts_splitOne_def EditorLayouts_splitTwo_def
        EditorLayouts_splitThree_def)
  show "previewViewColumn (selectLayout g PlaygroundLayout_splitRight) = 1"
    by (simp add: selectLayout_def)
  show "currentViewColumn (selectLayout g PlaygroundLayout_splitRight) = 2"
    by (simp add: selectLayout_def)
  have "length (List.map_filter (getGistFileOfType g) [markup, stylesheet, script]) =
          includedFiles g"
    by (simp add: includedFiles_def List.map_filter_def)
  then show "map snd (editorViewColumns g PlaygroundLayout_splitRight) =
             [2 ..< 2 + includedFiles g]"
    using layouts_distinct(4)
    by (simp add: editorViewColumns_def selectLayout_def Let_def)
qed

lemma three_role_files:
  "getGistFileOfType three_role_gist markup = Some (js ''index.html'')"
  "getGistFileOfType three_role_gist stylesheet = Some (js ''style.scss'')"
  "getGistFileOfType three_role_gist script = Some (js ''script.js'')"
  by (simp_all add: getGistFileOfType_def three_role_gist_def fileCandidates_markup
      fileCandidates_stylesheet fileCandidates_script js_def)

text \<open>A bundle with all three roles, against the preference \<^verbatim>\<open>splitLeft\<close>.\<close>

theorem splitRight_reverses_groups_witness:
  "groups (editorLayout (selectLayout three_role_gist PlaygroundLayout_splitLeft)) =
     Some [Group (Some vertical)
             (Some [Group None None None, Group None None None, Group None None None])
             (Some 0.5),
           Group None (Some [Group None None None]) (Some 0.5)]
   \<and> groups (editorLayout (selectLayout three_role_gist PlaygroundLayout_splitRight)) =
     Some [Group None (Some [Group None None None]) (Some 0.5),
           Group (Some vertical)
             (Some [Group None None None, Group None None None, Group None None None])
             (Some 0.5)]
   \<and> previewViewColumn (selectLayout three_role_gist PlaygroundLayout_splitRight) = 1
   \<and> editorViewColumns three_role_gist PlaygroundLayout_splitRight =
       [(js ''index.html'', 2), (js ''style.scss'', 3), (js ''script.js'', 4)]"
proof -
  have three: "includedFiles three_role_gist = 3"
    by (simp add: includedFiles_def three_role_files)
  have left: "groups (editorLayout (selectLayout three_role_gist PlaygroundLayout_splitLeft)) =
     Some [Group (Some vertical)
             (Some [Group None None None, Group None None None, Group None None None])
             (Some 0.5),
           Group None (Some [Group None None None]) (Some 0.5)]"
    using layouts_distinct
    by (simp add: selectLayout_def three EditorLayouts_splitThree_def
        PlaygroundLayout_splitLeft_def PlaygroundLayout_splitTop_def js_def)
  have shown: "List.map_filter (getGistFileOfType three_role_gist) [markup, stylesheet, script] =
      [js ''index.html'', js ''style.scss'', js ''script.js'']"
    by (simp add: List.map_filter_def three_role_files)
  have upt: "[2 ..< 5] = [2, 3, 4 :: nat]"
    by (simp add: upt_rec)
  from splitRight_reverses_groups [OF layouts_distinct(2,3), of three_role_gist] left
  have "groups (editorLayout (selectLayout three_role_gist PlaygroundLayout_splitRight)) =
     Some [Group None (Some [Group None None None]) (Some 0.5),
           Group (Some vertical)
             (Some [Group None None None, Group None None None, Group None None None])
             (Some 0.5)]"
    and "previewViewColumn (selectLayout three_role_gist PlaygroundLayout_splitRight) = 1"
    and "currentViewColumn (selectLayout three_role_gist PlaygroundLayout_splitRight) = 2"
    by simp_all
  with left shown upt show ?thesis
    using layouts_distinct(4)
    by (simp add: editorViewColumns_def)
qed

section \<open>The template quick pick\<close>

lemma mset_insort_by: "mset (insort_by cmp x ys) = add_mset x (mset ys)"
  by (induction ys) simp_all

lemma mset_sort_by: "mset (sort_by cmp xs) = mset xs"
  by (induction xs) (simp_all add: sort_by_def mset_insort_by)

lemma set_insort_by: "set (insort_by cmp x ys) = insert x (set ys)"
  by (induction ys) auto

lemma sorted_insort_by:
  assumes "consistent cmp" and "sorted_wrt (\<lambda>a b. cmp a b \<le> 0) ys"
  shows "sorted_wrt (\<lambda>a b. cmp a b \<le> 0) (insort_by cmp x ys)"
  using assms(2)
proof (induction ys)
  case Nil
  show ?case by simp
next
  case (Cons y ys)
  from assms(1) have total: "\<And>a b. \<not> cmp a b \<le> 0 \<Longrightarrow> cmp b a \<le> 0"
    and trans: "\<And>a b c. cmp a b \<le> 0 \<Longrightarrow> cmp b c \<le> 0 \<Longrightarrow> cmp a c \<le> 0"
    unfolding consistent_def by blast+
  show ?case
  proof (cases "cmp x y \<le> 0")
    case True
    with Cons.prems trans have "\<forall>z \<in> set ys. cmp x z \<le> 0" by auto
    with True Cons.prems show ?thesis by simp
  next
    case False
    then have "cmp y x \<le> 0" by (rule total)
    with False Cons show ?thesis by (auto simp: set_insort_by)
  qed
qed

lemma sorted_sort_by:
  "consistent cmp \<Longrightarrow> sorted_wrt (\<lambda>a b. cmp a b \<le> 0) (sort_by cmp xs)"
  by (induction xs) (simp_all add: sort_by_def sorted_insort_by)

text \<open>
  C8 (as amended). Let the templates be the gallery templates followed by the templates of
  the user's gists. When there is none, \<^verbatim>\<open>newPlaygroundInternal\<close> shows no quick pick and
  goes on without a template. When there is one, the items of the quick pick are all
  these templates, each once, in the order \<^verbatim>\<open>sort\<close> gives them under \<^verbatim>\<open>localeCompare\<close> of
  their labels, followed by the item for going on without a template, which is last.
\<close>

theorem newPlaygroundInternal_items:
  assumes "templates = galleryTemplates @ concat (map (userTemplate h) (gists @ starredGists))"
  shows "(templates = [] \<longrightarrow>
            newPlaygroundInternal h galleryTemplates gists starredGists = None)
       \<and> (templates \<noteq> [] \<longrightarrow>
            (\<exists>sorted.
               newPlaygroundInternal h galleryTemplates gists starredGists =
                 Some (map Template sorted @ [NO_TEMPLATE_GIST_ITEM]) \<and>
               mset sorted = mset templates \<and>
               (consistent (byLabel h) \<longrightarrow>
                  sorted_wrt (\<lambda>a b. localeCompare h (label a) (label b) \<le> 0) sorted)))"
proof (intro conjI impI)
  assume "templates = []"
  with assms show "newPlaygroundInternal h galleryTemplates gists starredGists = None"
    by (simp add: newPlaygroundInternal_def)
next
  assume ne: "templates \<noteq> []"
  have "newPlaygroundInternal h galleryTemplates gists starredGists =
          Some (map Template (sort_by (byLabel h) templates) @ [NO_TEMPLATE_GIST_ITEM])"
    using ne assms by (simp add: newPlaygroundInternal_def Let_def)
  moreover have "mset (sort_by (byLabel h) templates) = mset templates"
    by (rule mset_sort_by)
  moreover have "consistent (byLabel h) \<longrightarrow>
      sorted_wrt (\<lambda>a b. localeCompare h (label a) (label b) \<le> 0) (sort_by (byLabel h) templates)"
    using sorted_sort_by [of "byLabel h" templates] by (simp add: byLabel_def)
  ultimately show "\<exists>sorted.
               newPlaygroundInternal h galleryTemplates gists starredGists =
                 Some (map Template sorted @ [NO_TEMPLATE_GIST_ITEM]) \<and>
               mset sorted = mset templates \<and>
               (consistent (byLabel h) \<longrightarrow>
                  sorted_wrt (\<lambda>a b. localeCompare h (label a) (label b) \<le> 0) sorted)"
    by blast
qed

lemma consistent_sample: "consistent (byLabel sample_host)"
  by (simp add: consistent_def byLabel_def sample_host_def sample_compare_def) linarith

lemma sample_sorted:
  "sort_by (byLabel sample_host) [react_template, vue_template] = [vue_template, react_template]"
  by (simp add: sort_by_def byLabel_def sample_host_def sample_compare_def
      react_template_def vue_template_def js_def)

text \<open>Two gallery templates and no gist of the user.\<close>

theorem newPlaygroundInternal_items_witness:
  "newPlaygroundInternal sample_host [react_template, vue_template] [] [] =
     Some [Template vue_template, Template react_template, NO_TEMPLATE_GIST_ITEM]
   \<and> sorted_wrt (\<lambda>a b. localeCompare sample_host (label a) (label b) \<le> 0)
        [vue_template, react_template]"
proof -
  have templates: "[react_template, vue_template] =
      [react_template, vue_template] @ concat (map (userTemplate sample_host) ([] @ []))"
    by simp
  from newPlaygroundInternal_items [OF templates]
  obtain sorted where
    items: "newPlaygroundInternal sample_host [react_template, vue_template] [] [] =
              Some (map Template sorted @ [NO_TEMPLATE_GIST_ITEM])" and
    ordered: "consistent (byLabel sample_host) \<longrightarrow>
        sorted_wrt (\<lambda>a b. localeCompare sample_host (label a) (label b) \<le> 0) sorted"
    by auto
  have "newPlaygroundInternal sample_host [react_template, vue_template] [] [] =
     Some [Template vue_template, Template react_template, NO_TEMPLATE_GIST_ITEM]"
    by (simp add: newPlaygroundInternal_def sample_sorted)
  with items have "sorted = [vue_template, react_template]"
    by (auto simp: Cons_eq_map_conv)
  with items ordered consistent_sample show ?thesis by simp
qed

lemma userTemplate_three_role: "userTemplate h three_role_gist = []"
  by (simp add: userTemplate_def three_role_gist_def PLAYGROUND_FILE_def js_def)

text \<open>With no gallery template and no template among the gists there is no quick pick,
  and so no item for going on without a template either.\<close>

theorem newPlaygroundInternal_without_templates:
  "newPlaygroundInternal sample_host [] [] [] = None
   \<and> newPlaygroundInternal sample_host [] [three_role_gist] [] = None"
  by (simp add: newPlaygroundInternal_def userTemplate_three_role)

section \<open>Bursts of change events\<close>

lemma debounce_burst:
  "calls \<noteq> [] \<Longrightarrow> burst wait calls \<Longrightarrow>
   debounce wait calls = [(fst (last calls) + wait, snd (last calls))]"
  by (induction wait calls rule: debounce.induct) auto

lemma changeHandler_markup_patch:
  assumes "isPlaygroundDocument (pg_gist pg) d markup" "getMarkupContent h d = (effs, Some html)"
  shows "changeHandler h pg d = (effs @ [UpdateHTML html (runOnEdit pg)], None, pg)"
  using assms by (simp add: changeHandler_def)

lemma changeHandler_stylesheet_patch:
  assumes "isPlaygroundDocument (pg_gist pg) d stylesheet"
    "\<not> isPlaygroundManifestFile h (pg_gist pg) d"
    "getStylesheetContent h d = (effs, Some css)"
  shows "changeHandler h pg d = (effs @ [UpdateCSS css (runOnEdit pg)], None, pg)"
proof -
  from assms(1) have "\<not> isPlaygroundDocument (pg_gist pg) d markup"
    "\<not> isPlaygroundDocument (pg_gist pg) d script"
    by (auto simp: isPlaygroundDocument_def stylesheet_not_markup stylesheet_not_script
        split: if_splits)
  with assms show ?thesis
    by (simp add: changeHandler_def)
qed

lemma runHandlers_single:
  "runHandlers h pg [d] = (fst (changeHandler h pg d), snd (snd (changeHandler h pg d)))"
  by (simp split: prod.splits)

text \<open>
  C4 (as amended). The change events of all documents share one debounce of 100
  milliseconds. Of a burst of events, each less than 100 milliseconds after the one
  before, only the last one runs the handler, once, 100 milliseconds after it and on the
  document of that last event, whatever documents the earlier events were for. When that
  document is the stylesheet and it transpiles, exactly one update reaches the preview
  surface: the CSS of the text the last event left.
\<close>

theorem debounced_burst_runs_handler_once:
  assumes "events \<noteq> []" and "burst 100 events"
  shows "debounce 100 events = [(fst (last events) + 100, snd (last events))]
     \<and> onDidChangeTextDocument h pg events =
         (fst (changeHandler h pg (snd (last events))),
          snd (snd (changeHandler h pg (snd (last events)))))
     \<and> (isPlaygroundDocument (pg_gist pg) (snd (last events)) stylesheet \<and>
         \<not> isPlaygroundManifestFile h (pg_gist pg) (snd (last events)) \<longrightarrow>
         (\<forall>effs css. getStylesheetContent h (snd (last events)) = (effs, Some css) \<longrightarrow>
            fst (onDidChangeTextDocument h pg events) = effs @ [UpdateCSS css (runOnEdit pg)] \<and>
            filter isUpdate (fst (onDidChangeTextDocument h pg events)) =
              [UpdateCSS css (runOnEdit pg)]))"
proof -
  have fired: "debounce 100 events = [(fst (last events) + 100, snd (last events))]"
    using assms by (rule debounce_burst)
  then have run: "onDidChangeTextDocument h pg events =
         (fst (changeHandler h pg (snd (last events))),
          snd (snd (changeHandler h pg (snd (last events)))))"
    by (simp add: onDidChangeTextDocument_def split: prod.splits)
  have "fst (onDidChangeTextDocument h pg events) = effs @ [UpdateCSS css (runOnEdit pg)] \<and>
        filter isUpdate (fst (onDidChangeTextDocument h pg events)) = [UpdateCSS css (runOnEdit pg)]"
    if "isPlaygroundDocument (pg_gist pg) (snd (last events)) stylesheet"
      "\<not> isPlaygroundManifestFile h (pg_gist pg) (snd (last events))"
      "getStylesheetContent h (snd (last events)) = (effs, Some css)" for effs css
  proof -
    from getStylesheetContent_effects [of h "snd (last events)"] that(3)
    have "filter isUpdate effs = []" by simp
    with changeHandler_stylesheet_patch [OF that] run show ?thesis
      by (simp add: isUpdate_def)
  qed
  with fired run show ?thesis by blast
qed

lemma getStylesheetContent_sample_scss:
  "getStylesheetContent sample_host (sample_document ''style.scss'' (js ''a { b: c }'')) =
     ([SassRenderSync (js ''a { b: c }'') False], Some sample_css)"
proof -
  have "trim (js ''a { b: c }'') \<noteq> []"
    by (simp add: trim_eq_Nil isWhiteSpaceOrLineTerminator_def js_def)
  moreover have "getText (sample_document ''style.scss'' (js ''a { b: c }'')) = js ''a { b: c }''"
    by (simp add: sample_document_def)
  moreover have "sass_renderSync sample_host (js ''a { b: c }'') False = Some sample_css"
    "toLocaleLowerCase sample_host = sample_toLowerCase"
    by (simp_all add: sample_host_def sample_css_def)
  moreover have "js ''.scss'' \<noteq> js ''.sass''" by (simp add: js_def)
  ultimately show ?thesis
    by (simp add: getStylesheetContent_def extname_sample sample_toLowerCase_ext)
qed

lemma getMarkupContent_sample_pug:
  "getMarkupContent sample_host (sample_document ''index.pug'' (js ''p hi'')) =
     ([PugRender (js ''p hi'')], Some (js ''<p>hi</p>''))"
proof -
  have "trim (js ''p hi'') \<noteq> []"
    by (simp add: trim_eq_Nil isWhiteSpaceOrLineTerminator_def js_def)
  moreover have "getText (sample_document ''index.pug'' (js ''p hi'')) = js ''p hi''"
    by (simp add: sample_document_def)
  moreover have "pug_render sample_host (js ''p hi'') = Some (js ''<p>hi</p>'')"
    "toLocaleLowerCase sample_host = sample_toLowerCase"
    by (simp_all add: sample_host_def)
  ultimately show ?thesis
    by (simp add: getMarkupContent_def extname_sample sample_toLowerCase_ext)
qed

text \<open>Two edits of \<^verbatim>\<open>style.scss\<close>, 40 milliseconds apart.\<close>

theorem debounced_burst_runs_handler_once_witness:
  "fst (onDidChangeTextDocument sample_host sample_playground
     [(0, sample_document ''style.scss'' (js ''a {'')),
      (40, sample_document ''style.scss'' (js ''a { b: c }''))]) =
   [SassRenderSync (js ''a { b: c }'') False, UpdateCSS sample_css True]"
proof -
  have burst: "burst 100 [(0 :: nat, sample_document ''style.scss'' (js ''a {'')),
      (40, sample_document ''style.scss'' (js ''a { b: c }''))]"
    by simp
  have edit: "runOnEdit sample_playground = True"
    by (simp add: sample_playground_def)
  have latest: "snd (last [(0 :: nat, sample_document ''style.scss'' (js ''a {'')),
      (40, sample_document ''style.scss'' (js ''a { b: c }''))]) =
      sample_document ''style.scss'' (js ''a { b: c }'')"
    by simp
  have nonempty: "[(0 :: nat, sample_document ''style.scss'' (js ''a {'')),
      (40, sample_document ''style.scss'' (js ''a { b: c }''))] \<noteq> []"
    by simp
  from debounced_burst_runs_handler_once
    [OF nonempty burst, of sample_host sample_playground, unfolded latest]
  have "isPlaygroundDocument (pg_gist sample_playground)
          (sample_document ''style.scss'' (js ''a { b: c }'')) stylesheet \<and>
        \<not> isPlaygroundManifestFile sample_host (pg_gist sample_playground)
          (sample_document ''style.scss'' (js ''a { b: c }'')) \<longrightarrow>
        (\<forall>effs css. getStylesheetContent sample_host
             (sample_document ''style.scss'' (js ''a { b: c }'')) = (effs, Some css) \<longrightarrow>
           fst (onDidChangeTextDocument sample_host sample_playground
             [(0, sample_document ''style.scss'' (js ''a {'')),
              (40, sample_document ''style.scss'' (js ''a { b: c }''))]) =
           effs @ [UpdateCSS css (runOnEdit sample_playground)])"
    by blast
  with sample_isPlaygroundDocument(2) sample_isPlaygroundManifestFile(1)
    getStylesheetContent_sample_scss
  have "fst (onDidChangeTextDocument sample_host sample_playground
             [(0, sample_document ''style.scss'' (js ''a {'')),
              (40, sample_document ''style.scss'' (js ''a { b: c }''))]) =
        [SassRenderSync (js ''a { b: c }'') False] @
        [UpdateCSS sample_css (runOnEdit sample_playground)]"
    by blast
  with edit show ?thesis by simp
qed

text \<open>An edit of \<^verbatim>\<open>style.scss\<close> followed 40 milliseconds later by an edit of
  \<^verbatim>\<open>index.pug\<close>: the markup is patched, the stylesheet never is, although the same edit
  of \<^verbatim>\<open>style.scss\<close> alone is.\<close>

theorem debounce_is_shared_by_all_documents:
  "fst (onDidChangeTextDocument sample_host sample_playground
     [(0, sample_document ''style.scss'' (js ''a { b: c }'')),
      (40, sample_document ''index.pug'' (js ''p hi''))]) =
   [PugRender (js ''p hi''), UpdateHTML (js ''<p>hi</p>'') True]
   \<and> fst (onDidChangeTextDocument sample_host sample_playground
     [(0, sample_document ''style.scss'' (js ''a { b: c }''))]) =
   [SassRenderSync (js ''a { b: c }'') False, UpdateCSS sample_css True]"
proof -
  have pug: "changeHandler sample_host sample_playground
      (sample_document ''index.pug'' (js ''p hi'')) =
      ([PugRender (js ''p hi'')] @ [UpdateHTML (js ''<p>hi</p>'') (runOnEdit sample_playground)],
       None, sample_playground)"
    by (rule changeHandler_markup_patch
        [OF sample_isPlaygroundDocument(1) getMarkupContent_sample_pug])
  have scss: "changeHandler sample_host sample_playground
      (sample_document ''style.scss'' (js ''a { b: c }'')) =
      ([SassRenderSync (js ''a { b: c }'') False] @ [UpdateCSS sample_css (runOnEdit sample_playground)],
       None, sample_playground)"
    by (rule changeHandler_stylesheet_patch
        [OF sample_isPlaygroundDocument(2) sample_isPlaygroundManifestFile(1)
          getStylesheetContent_sample_scss])
  have edit: "runOnEdit sample_playground = True"
    by (simp add: sample_playground_def)
  show ?thesis
    by (simp add: onDidChangeTextDocument_def pug scss edit)
qed

end
